theory Spec2Isabelle
  imports Main "HOL-Library.Sublist"
begin

section \<open>Strings and completions\<close>

text \<open>
  A JavaScript string is held as the list of its UTF-8 bytes (the convention of
  \<open>string\<close>); every literal of the source is ASCII, where one byte is one character.
  The property \<open>.length\<close> of JavaScript counts UTF-16 code units: a byte that continues
  a UTF-8 sequence (\<open>0x80\<close> to \<open>0xBF\<close>) adds none, the lead byte of a four-byte
  sequence (from \<open>0xF0\<close>) adds two (a surrogate pair), every other byte adds one.
\<close>

definition utf16Units :: "char \<Rightarrow> nat" where
  "utf16Units c =
     (let b = (of_char c :: nat)
      in if 128 \<le> b \<and> b < 192 then 0 else if 240 \<le> b then 2 else 1)"

definition jsLength :: "string \<Rightarrow> nat" where
  "jsLength s = sum_list (map utf16Units s)"

text \<open>\<open>s.startsWith(t)\<close>, \<open>s.endsWith(t)\<close> and \<open>s.includes(t)\<close>, receiver first.\<close>

definition startsWith :: "string \<Rightarrow> string \<Rightarrow> bool" where
  "startsWith s t = prefix t s"

definition endsWith :: "string \<Rightarrow> string \<Rightarrow> bool" where
  "endsWith s t = suffix t s"

definition str_includes :: "string \<Rightarrow> string \<Rightarrow> bool" where
  "str_includes s t = sublist t s"

text \<open>
  The thrown value of the source is an \<open>Error\<close> object: its \<open>name\<close> and \<open>message\<close>,
  and the two properties \<open>code\<close> and \<open>accessPoints\<close> that \<open>deleteBucket\<close> attaches to
  one of its errors (absent, \<open>None\<close>, on every other error).
\<close>

record accessPoint =
  Name :: string
  Bucket :: string

record jsError =
  error_name :: string
  error_message :: string
  error_code :: "string option"
  error_accessPoints :: "accessPoint list option"

definition Error :: "string \<Rightarrow> jsError" where
  "Error msg = \<lparr>error_name = ''Error'', error_message = msg,
                error_code = None, error_accessPoints = None\<rparr>"

text \<open>How a call completes: it returns a value or it throws.\<close>

datatype 'a completion = Returns 'a | Throws jsError

section \<open>Naming Validator\<close>

text \<open>
  The character class \<open>[a-z0-9.-]\<close> of the regular expressions, and the test of
  \<open>/^[a-z0-9.-]+$/\<close>: at least one character, all of them in the class (without the
  \<open>m\<close> flag, \<open>^\<close> and \<open>$\<close> match at the two ends of the input only).
\<close>

definition bucketChar :: "char \<Rightarrow> bool" where
  "bucketChar c \<longleftrightarrow> c \<in> set ''abcdefghijklmnopqrstuvwxyz0123456789.-''"

definition bucketNamePattern :: "string \<Rightarrow> bool" where
  "bucketNamePattern s \<longleftrightarrow> s \<noteq> [] \<and> list_all bucketChar s"

text \<open>
  \<open>validateBucketName\<close> of \<open>s3Service.js\<close>: six checks in the source's order, each
  throwing its own \<open>Error\<close>; the function returns \<open>undefined\<close> when none fires.
\<close>

definition validateBucketName :: "string \<Rightarrow> unit completion" where
  "validateBucketName bucketName =
     (if bucketName = [] then
        Throws (Error ''Bucket name is required'')
      else if jsLength bucketName < 3 \<or> jsLength bucketName > 63 then
        Throws (Error ''Bucket name must be between 3 and 63 characters'')
      else if \<not> bucketNamePattern bucketName then
        Throws (Error ''Bucket name can only contain lowercase letters, numbers, dots, and hyphens'')
      else if startsWith bucketName ''.'' \<or> endsWith bucketName ''.'' then
        Throws (Error ''Bucket name cannot start or end with a dot'')
      else if str_includes bucketName ''..'' then
        Throws (Error ''Bucket name cannot contain consecutive dots'')
      else if str_includes bucketName ''.-'' \<or> str_includes bucketName ''-.'' then
        Throws (Error ''Bucket name cannot contain dots adjacent to hyphens'')
      else Returns ())"

text \<open>
  The rule set as the specification words it: length in \<open>[3,63]\<close>, a match of
  \<open>^[a-z0-9.-]+$\<close>, no dot at either end, no \<open>..\<close>, no \<open>.-\<close> and no \<open>-.\<close>.
\<close>

definition spec_validName :: "string \<Rightarrow> bool" where
  "spec_validName s \<longleftrightarrow>
     3 \<le> jsLength s \<and> jsLength s \<le> 63
     \<and> (s \<noteq> [] \<and> (\<forall>c \<in> set s. bucketChar c))
     \<and> \<not> (s \<noteq> [] \<and> hd s = CHR ''.'') \<and> \<not> (s \<noteq> [] \<and> last s = CHR ''.'')
     \<and> \<not> (\<exists>u v. s = u @ ''..'' @ v)
     \<and> \<not> (\<exists>u v. s = u @ ''.-'' @ v) \<and> \<not> (\<exists>u v. s = u @ ''-.'' @ v)"

section \<open>Storage provider\<close>

text \<open>
  The commands the service builds. \<open>ListObjectsV2Command\<close> carries \<open>Bucket\<close>,
  \<open>Prefix\<close>, \<open>MaxKeys\<close> and \<open>ContinuationToken\<close>; a property the source leaves
  out of the input object is \<open>None\<close>. \<open>ListAccessPointsCommand\<close> carries
  \<open>AccountId\<close> and \<open>Bucket\<close>, \<open>DeleteAccessPointCommand\<close> carries \<open>AccountId\<close>
  and \<open>Name\<close>, \<open>DeleteObjectCommand\<close> carries \<open>Bucket\<close> and \<open>Key\<close>,
  \<open>CreateBucketCommand\<close> carries \<open>Bucket\<close> and the \<open>LocationConstraint\<close>.
\<close>

datatype command =
    ListObjectsV2Command string "string option" "nat option" "string option"
  | DeleteBucketCommand string
  | CreateBucketCommand string "string option"
  | ListAccessPointsCommand string string
  | DeleteAccessPointCommand string string
  | DeleteObjectCommand string string

record s3Object =
  Key :: string
  Size :: nat
  LastModified :: string
  ETag :: string
  StorageClass :: "string option"

text \<open>
  The output object of a command, with the properties the source reads; a property
  that is \<open>undefined\<close> is \<open>None\<close>.
\<close>

record response =
  Contents :: "s3Object list option"
  IsTruncated :: "bool option"
  NextContinuationToken :: "string option"
  KeyCount :: "nat option"
  AccessPointList :: "accessPoint list option"

definition emptyResponse :: response where
  "emptyResponse = \<lparr>Contents = None, IsTruncated = None, NextContinuationToken = None,
                     KeyCount = None, AccessPointList = None\<rparr>"

text \<open>
  The promise of \<open>client.send(command)\<close> resolves with an output or rejects with
  an error. The provider is any function from the commands sent so far and the
  command sent now to that outcome: no behaviour of the storage service is assumed.
\<close>

datatype reply = Resolves response | Rejects jsError

type_synonym provider = "command list \<Rightarrow> command \<Rightarrow> reply"

text \<open>
  An action runs against the log of the commands sent so far, returns or throws,
  and leaves the extended log. \<open>await\<close> sequences two actions, \<open>try_catch\<close> is the
  \<open>try { ... } catch (error) { ... }\<close> statement.
\<close>

type_synonym 'a action = "command list \<Rightarrow> 'a completion \<times> command list"

definition return :: "'a \<Rightarrow> 'a action" where
  "return v log = (Returns v, log)"

definition throw :: "jsError \<Rightarrow> 'a action" where
  "throw e log = (Throws e, log)"

definition await :: "'a action \<Rightarrow> ('a \<Rightarrow> 'b action) \<Rightarrow> 'b action" where
  "await m f log =
     (case m log of
        (Returns v, log') \<Rightarrow> f v log'
      | (Throws e, log') \<Rightarrow> (Throws e, log'))"

definition try_catch :: "'a action \<Rightarrow> (jsError \<Rightarrow> 'a action) \<Rightarrow> 'a action" where
  "try_catch m handler log =
     (case m log of
        (Returns v, log') \<Rightarrow> (Returns v, log')
      | (Throws e, log') \<Rightarrow> handler e log')"

definition send :: "provider \<Rightarrow> command \<Rightarrow> response action" where
  "send P command log =
     (case P log command of
        Resolves output \<Rightarrow> (Returns output, log @ [command])
      | Rejects error \<Rightarrow> (Throws error, log @ [command]))"

text \<open>\<open>for (const x of xs) { await body(x) }\<close>: in order, stopping at the first throw.\<close>

primrec for_of :: "'a list \<Rightarrow> ('a \<Rightarrow> 'b action) \<Rightarrow> unit action" where
  "for_of [] body log = (Returns (), log)"
| "for_of (x # xs) body log =
     (case body x log of
        (Returns _, log') \<Rightarrow> for_of xs body log'
      | (Throws e, log') \<Rightarrow> (Throws e, log'))"

text \<open>
  A value is falsy when it is \<open>undefined\<close> or the empty string; \<open>the\<close> reads a
  value only under a test that it is truthy.
\<close>

definition truthy :: "string option \<Rightarrow> bool" where
  "truthy v = (case v of None \<Rightarrow> False | Some s \<Rightarrow> s \<noteq> [])"

text \<open>The decimal text of a length in a template literal, and \<open>xs.join(sep)\<close>.\<close>

definition digitChar :: "nat \<Rightarrow> char" where
  "digitChar d = ''0123456789'' ! (d mod 10)"

function showNat :: "nat \<Rightarrow> string" where
  "showNat n = (if n < 10 then [digitChar n] else showNat (n div 10) @ [digitChar (n mod 10)])"
  by pat_completeness auto
termination
  by (relation "measure id") auto

fun join :: "string list \<Rightarrow> string \<Rightarrow> string" where
  "join [] sep = []"
| "join [x] sep = x"
| "join (x # y # ys) sep = x @ sep @ join (y # ys) sep"

section \<open>Service: access points and bucket deletion\<close>

record opResult =
  success :: bool
  message :: string

text \<open>\<open>listAccessPoints\<close>: the list of the output, or \<open>[]\<close> when the call fails.\<close>

definition listAccessPoints :: "provider \<Rightarrow> string \<Rightarrow> string \<Rightarrow> accessPoint list action" where
  "listAccessPoints P bucketName accountId =
     try_catch
       (await (send P (ListAccessPointsCommand accountId bucketName)) (\<lambda>response.
          return (case AccessPointList response of Some l \<Rightarrow> l | None \<Rightarrow> [])))
       (\<lambda>error. return [])"

definition deleteAccessPoint :: "provider \<Rightarrow> string \<Rightarrow> string \<Rightarrow> opResult action" where
  "deleteAccessPoint P accessPointName accountId =
     try_catch
       (await (send P (DeleteAccessPointCommand accountId accessPointName)) (\<lambda>_.
          return \<lparr>success = True,
                  message = ''Access point '' @ accessPointName @ '' deleted successfully''\<rparr>))
       (\<lambda>error. throw (Error (''Failed to delete access point '' @ accessPointName @ '': ''
                                @ error_message error)))"

text \<open>
  \<open>deleteBucket\<close> (plain delete). \<open>AWS_ACCOUNT_ID\<close> is \<open>process.env.AWS_ACCOUNT_ID\<close>.
  The three nested \<open>try\<close> statements are kept: what the innermost handler and the
  handler of the delete attempt throw is caught by the outermost handler.
\<close>

definition deleteBucket :: "provider \<Rightarrow> string option \<Rightarrow> string \<Rightarrow> opResult action" where
  "deleteBucket P AWS_ACCOUNT_ID bucketName =
     try_catch
       (await (send P (ListObjectsV2Command bucketName None None None)) (\<lambda>objectsResponse.
          if (case Contents objectsResponse of Some cs \<Rightarrow> length cs > 0 | None \<Rightarrow> False) then
            throw (Error ''Cannot delete bucket that contains objects'')
          else
            try_catch
              (await (send P (DeleteBucketCommand bucketName)) (\<lambda>_.
                 return \<lparr>success = True, message = ''Bucket deleted successfully''\<rparr>))
              (\<lambda>error.
                 await
                   (if error_message error \<noteq> []
                       \<and> str_includes (error_message error) ''access points attached'' then
                      try_catch
                        (if \<not> truthy AWS_ACCOUNT_ID then
                           throw (Error ''Bucket has access points attached and cannot be deleted. Please set AWS_ACCOUNT_ID environment variable to enable access point management.'')
                         else
                           await (listAccessPoints P bucketName (the AWS_ACCOUNT_ID)) (\<lambda>accessPoints.
                             if length accessPoints > 0 then
                               throw ((Error (''Bucket has '' @ showNat (length accessPoints)
                                        @ '' access point(s) attached: ''
                                        @ join (map Name accessPoints) '', ''
                                        @ ''. These must be deleted before the bucket can be removed.''))
                                      \<lparr>error_code := Some ''BUCKET_HAS_ACCESS_POINTS'',
                                       error_accessPoints := Some accessPoints\<rparr>)
                             else return ()))
                        (\<lambda>accessPointError.
                           if error_code accessPointError = Some ''BUCKET_HAS_ACCESS_POINTS'' then
                             throw accessPointError
                           else
                             throw (Error (''Failed to check access points: ''
                                           @ error_message accessPointError)))
                    else return ())
                   (\<lambda>_. throw error))))
       (\<lambda>error. throw (Error (''Failed to delete bucket: '' @ error_message error)))"

text \<open>\<open>deleteBucketWithAccessPoints\<close> (forced delete).\<close>

definition deleteBucketWithAccessPoints :: "provider \<Rightarrow> string \<Rightarrow> string \<Rightarrow> opResult action" where
  "deleteBucketWithAccessPoints P bucketName accountId =
     try_catch
       (await (listAccessPoints P bucketName accountId) (\<lambda>accessPoints.
        await (if length accessPoints > 0 then
                 for_of accessPoints (\<lambda>accessPoint.
                   deleteAccessPoint P (Name accessPoint) accountId)
               else return ()) (\<lambda>_.
        await (send P (DeleteBucketCommand bucketName)) (\<lambda>_.
        return \<lparr>success = True,
                message = (if length accessPoints > 0 then
                             ''Bucket deleted successfully after removing ''
                             @ showNat (length accessPoints) @ '' access point(s)''
                           else ''Bucket deleted successfully'')\<rparr>))))
       (\<lambda>error. throw (Error (''Failed to delete bucket with access points: ''
                                @ error_message error)))"

section \<open>Service: bucket creation, file listing, file deletion\<close>

text \<open>
  \<open>createBucket\<close>: the validator runs inside the \<open>try\<close>, so what it throws is caught
  and wrapped like a provider error. The location constraint is sent for every region
  but \<open>us-east-1\<close>.
\<close>

record bucketRef =
  bucket_name :: string
  bucket_region :: string

definition createBucket :: "provider \<Rightarrow> string \<Rightarrow> string \<Rightarrow> bucketRef action" where
  "createBucket P bucketName region =
     try_catch
       (await (\<lambda>log. (validateBucketName bucketName, log)) (\<lambda>_.
        await (send P (CreateBucketCommand bucketName
                         (if region \<noteq> ''us-east-1'' then Some region else None))) (\<lambda>_.
        return \<lparr>bucket_name = bucketName, bucket_region = region\<rparr>)))
       (\<lambda>error.
          if error_name error = ''BucketAlreadyExists'' then
            throw (Error ''Bucket name already exists'')
          else if error_name error = ''BucketAlreadyOwnedByYou'' then
            throw (Error ''Bucket already owned by you'')
          else throw (Error (''Failed to create bucket: '' @ error_message error)))"

record fileEntry =
  file_key :: string
  file_size :: nat
  file_lastModified :: string
  file_etag :: string
  file_storageClass :: string

record listFilesResult =
  files :: "fileEntry list"
  isTruncated :: "bool option"
  nextContinuationToken :: "string option"
  totalCount :: "nat option"

text \<open>
  \<open>listFiles\<close>: its input object holds \<open>Bucket\<close>, \<open>Prefix\<close> and \<open>MaxKeys\<close>; the
  function has no parameter for a continuation token and sends none.
\<close>

definition listFiles :: "provider \<Rightarrow> string \<Rightarrow> string \<Rightarrow> nat \<Rightarrow> listFilesResult action" where
  "listFiles P bucketName prefix' maxKeys =
     try_catch
       (await (send P (ListObjectsV2Command bucketName (Some prefix') (Some maxKeys) None))
          (\<lambda>response.
             return
               \<lparr>files = map (\<lambda>object.
                           \<lparr>file_key = Key object, file_size = Size object,
                            file_lastModified = LastModified object, file_etag = ETag object,
                            file_storageClass =
                              (if truthy (StorageClass object) then the (StorageClass object)
                               else ''STANDARD'')\<rparr>)
                        (case Contents response of Some cs \<Rightarrow> cs | None \<Rightarrow> []),
                isTruncated = IsTruncated response,
                nextContinuationToken = NextContinuationToken response,
                totalCount = KeyCount response\<rparr>))
       (\<lambda>error. throw (Error (''Failed to list files: '' @ error_message error)))"

definition deleteFile :: "provider \<Rightarrow> string \<Rightarrow> string \<Rightarrow> opResult action" where
  "deleteFile P bucketName key =
     try_catch
       (await (send P (DeleteObjectCommand bucketName key)) (\<lambda>_.
          return \<lparr>success = True, message = ''File deleted successfully''\<rparr>))
       (\<lambda>error. throw (Error (''Failed to delete file: '' @ error_message error)))"

section \<open>Size aggregation\<close>

text \<open>
  \<open>calculateBucketSize\<close> of the bucket routes: a \<open>do ... while (continuationToken)\<close>
  loop inside one \<open>try\<close>. The loop may run forever, so it is a partial function:
  \<open>None\<close> is the run that never returns. The handler of the \<open>try\<close> turns every
  throw into the value \<open>0\<close>.
\<close>

partial_function (option) calculateBucketSize_loop ::
  "provider \<Rightarrow> string \<Rightarrow> nat \<Rightarrow> command list \<Rightarrow> (nat completion \<times> command list) option"
where
  "calculateBucketSize_loop P bucketName totalSize log =
     (case listFiles P bucketName [] 1000 log of
        (Throws error, log') \<Rightarrow> Some (Throws error, log')
      | (Returns result, log') \<Rightarrow>
          (if truthy (nextContinuationToken result) then
             calculateBucketSize_loop P bucketName
               (totalSize + foldl (\<lambda>sum file. sum + file_size file) 0 (files result)) log'
           else
             Some (Returns (totalSize + foldl (\<lambda>sum file. sum + file_size file) 0 (files result)),
                   log')))"

declare calculateBucketSize_loop.simps [code]

definition calculateBucketSize ::
  "provider \<Rightarrow> string \<Rightarrow> command list \<Rightarrow> (nat completion \<times> command list) option" where
  "calculateBucketSize P bucketName log =
     (case calculateBucketSize_loop P bucketName 0 log of
        None \<Rightarrow> None
      | Some (Returns totalSize, log') \<Rightarrow> Some (Returns totalSize, log')
      | Some (Throws error, log') \<Rightarrow> Some (Returns 0, log'))"

section \<open>Request boundary\<close>

text \<open>
  The Joi schemas of the validation middleware. \<open>validate\<close> reports the first rule that
  fails (its error type), or no error: a string schema refuses the empty string, then
  applies \<open>min\<close>, \<open>max\<close> and \<open>pattern\<close> in the order they are declared.
\<close>

datatype joiError = string_empty | string_min | string_max | string_pattern_base

definition bucketNameSchema :: "string \<Rightarrow> joiError option" where
  "bucketNameSchema v =
     (if v = [] then Some string_empty
      else if jsLength v < 3 then Some string_min
      else if jsLength v > 63 then Some string_max
      else if \<not> bucketNamePattern v then Some string_pattern_base
      else None)"

text \<open>The class \<open>[^<>:"|?*]\<close> and the test of \<open>/^[^<>:"|?*]+$/\<close>.\<close>

definition fileKeyChar :: "char \<Rightarrow> bool" where
  "fileKeyChar c \<longleftrightarrow> c \<notin> set (CHR 0x22 # ''<>:|?*'')"

definition fileKeyPattern :: "string \<Rightarrow> bool" where
  "fileKeyPattern s \<longleftrightarrow> s \<noteq> [] \<and> list_all fileKeyChar s"

definition fileKeySchema :: "string \<Rightarrow> joiError option" where
  "fileKeySchema v =
     (if v = [] then Some string_empty
      else if jsLength v < 1 then Some string_min
      else if jsLength v > 1024 then Some string_max
      else if \<not> fileKeyPattern v then Some string_pattern_base
      else None)"

text \<open>
  \<open>decodeURIComponent\<close>: every \<open>%XX\<close> becomes the octet \<open>XX\<close>; an octet from \<open>0x80\<close>
  must open a well-formed UTF-8 sequence whose other octets are escaped too. A \<open>%\<close>
  without two hexadecimal digits, or an ill-formed sequence, throws \<open>URIError\<close>.
\<close>

datatype uriToken = Lit char | Octet nat

definition hexValue :: "char \<Rightarrow> nat option" where
  "hexValue c =
     (let n = (of_char c :: nat)
      in if 48 \<le> n \<and> n \<le> 57 then Some (n - 48)
         else if 65 \<le> n \<and> n \<le> 70 then Some (n - 55)
         else if 97 \<le> n \<and> n \<le> 102 then Some (n - 87)
         else None)"

fun unescape :: "string \<Rightarrow> uriToken list option" where
  "unescape [] = Some []"
| "unescape (c # cs) =
     (if c = CHR ''%'' then
        (case cs of
           h # l # rest \<Rightarrow>
             (case (hexValue h, hexValue l) of
                (Some a, Some b) \<Rightarrow> map_option (Cons (Octet (16 * a + b))) (unescape rest)
              | _ \<Rightarrow> None)
         | _ \<Rightarrow> None)
      else map_option (Cons (Lit c)) (unescape cs))"

definition continuation :: "uriToken \<Rightarrow> bool" where
  "continuation t = (case t of Octet b \<Rightarrow> 128 \<le> b \<and> b < 192 | Lit _ \<Rightarrow> False)"

definition octetOf :: "uriToken \<Rightarrow> nat" where
  "octetOf t = (case t of Octet b \<Rightarrow> b | Lit c \<Rightarrow> of_char c)"

definition sequenceLength :: "nat \<Rightarrow> nat" where
  "sequenceLength b =
     (if 192 \<le> b \<and> b < 224 then 2 else if 224 \<le> b \<and> b < 240 then 3
      else if 240 \<le> b \<and> b < 248 then 4 else 0)"

definition scalarValue :: "nat \<Rightarrow> nat list \<Rightarrow> nat" where
  "scalarValue b bs =
     foldl (\<lambda>v x. 64 * v + (x - 128))
       (if b < 224 then b - 192 else if b < 240 then b - 224 else b - 240) bs"

definition wellFormed :: "nat \<Rightarrow> nat \<Rightarrow> bool" where
  "wellFormed n v =
     (if n = 2 then 128 \<le> v
      else if n = 3 then 2048 \<le> v \<and> \<not> (55296 \<le> v \<and> v \<le> 57343)
      else 65536 \<le> v \<and> v \<le> 1114111)"

definition URIError :: jsError where
  "URIError = \<lparr>error_name = ''URIError'', error_message = ''URI malformed'',
               error_code = None, error_accessPoints = None\<rparr>"

fun utf8 :: "uriToken list \<Rightarrow> string completion" where
  "utf8 [] = Returns []"
| "utf8 (Lit c # ts) =
     (case utf8 ts of Returns d \<Rightarrow> Returns (c # d) | Throws e \<Rightarrow> Throws e)"
| "utf8 (Octet b # ts) =
     (if b < 128 then
        (case utf8 ts of Returns d \<Rightarrow> Returns (char_of b # d) | Throws e \<Rightarrow> Throws e)
      else if sequenceLength b = 0 then Throws URIError
      else if length ts < sequenceLength b - 1
              \<or> \<not> list_all continuation (take (sequenceLength b - 1) ts)
              \<or> \<not> wellFormed (sequenceLength b)
                    (scalarValue b (map octetOf (take (sequenceLength b - 1) ts)))
      then Throws URIError
      else
        (case utf8 (drop (sequenceLength b - 1) ts) of
           Returns d \<Rightarrow>
             Returns (map char_of (b # map octetOf (take (sequenceLength b - 1) ts)) @ d)
         | Throws e \<Rightarrow> Throws e))"

definition decodeURIComponent :: "string \<Rightarrow> string completion" where
  "decodeURIComponent s = (case unescape s of None \<Rightarrow> Throws URIError | Some ts \<Rightarrow> utf8 ts)"

text \<open>
  The reply of a route: the status and the body. \<open>Outcome\<close> is
  \<open>{success, message}\<close>, \<open>Blocked\<close> is \<open>{success: false, message, code, accessPoints}\<close>,
  \<open>BucketDetails\<close> is \<open>{success: true, bucket: {name, objectCount, totalSize, hasObjects}}\<close>.
\<close>

datatype body =
    Outcome bool string
  | Blocked string string "accessPoint list option"
  | BucketDetails string "nat option" nat bool

record httpReply =
  status :: nat
  body :: body

text \<open>\<open>DELETE /buckets/:name\<close>.\<close>

definition deleteBucketRoute :: "provider \<Rightarrow> string option \<Rightarrow> string \<Rightarrow> httpReply action" where
  "deleteBucketRoute P AWS_ACCOUNT_ID name =
     try_catch
       (if bucketNameSchema name \<noteq> None then
          return \<lparr>status = 400, body = Outcome False ''Invalid bucket name''\<rparr>
        else
          await (deleteBucket P AWS_ACCOUNT_ID name) (\<lambda>result.
            return \<lparr>status = 200, body = Outcome True (message result)\<rparr>))
       (\<lambda>error.
          if str_includes (error_message error) ''contains objects'' then
            return \<lparr>status = 409, body = Outcome False (error_message error)\<rparr>
          else if str_includes (error_message error) ''not found''
                  \<or> str_includes (error_message error) ''does not exist'' then
            return \<lparr>status = 404, body = Outcome False ''Bucket not found''\<rparr>
          else if error_code error = Some ''BUCKET_HAS_ACCESS_POINTS'' then
            return \<lparr>status = 409,
                    body = Blocked (error_message error) ''BUCKET_HAS_ACCESS_POINTS''
                             (error_accessPoints error)\<rparr>
          else return \<lparr>status = 500, body = Outcome False (error_message error)\<rparr>)"

text \<open>\<open>DELETE /buckets/:name/force\<close>.\<close>

definition forceDeleteBucketRoute :: "provider \<Rightarrow> string option \<Rightarrow> string \<Rightarrow> httpReply action" where
  "forceDeleteBucketRoute P AWS_ACCOUNT_ID name =
     try_catch
       (if \<not> truthy AWS_ACCOUNT_ID then
          return \<lparr>status = 400, body = Outcome False
            ''AWS_ACCOUNT_ID environment variable is required for access point management''\<rparr>
        else if bucketNameSchema name \<noteq> None then
          return \<lparr>status = 400, body = Outcome False ''Invalid bucket name''\<rparr>
        else
          await (deleteBucketWithAccessPoints P name (the AWS_ACCOUNT_ID)) (\<lambda>result.
            return \<lparr>status = 200, body = Outcome True (message result)\<rparr>))
       (\<lambda>error.
          if str_includes (error_message error) ''contains objects'' then
            return \<lparr>status = 409, body = Outcome False (error_message error)\<rparr>
          else return \<lparr>status = 500, body = Outcome False (error_message error)\<rparr>)"

text \<open>
  \<open>GET /buckets/:name\<close>: one listing capped at 1, then the size helper; the route
  returns only if the helper does.
\<close>

definition getBucketRoute ::
  "provider \<Rightarrow> string \<Rightarrow> command list \<Rightarrow> (httpReply completion \<times> command list) option" where
  "getBucketRoute P name log =
     (let handler = (\<lambda>error.
            if str_includes (error_message error) ''not found''
               \<or> str_includes (error_message error) ''does not exist'' then
              \<lparr>status = 404, body = Outcome False ''Bucket not found''\<rparr>
            else \<lparr>status = 500, body = Outcome False (error_message error)\<rparr>)
      in if bucketNameSchema name \<noteq> None then
           Some (Returns \<lparr>status = 400, body = Outcome False ''Invalid bucket name''\<rparr>, log)
         else
           (case listFiles P name [] 1 log of
              (Throws error, log1) \<Rightarrow> Some (Returns (handler error), log1)
            | (Returns filesResult, log1) \<Rightarrow>
                (case calculateBucketSize P name log1 of
                   None \<Rightarrow> None
                 | Some (Throws error, log2) \<Rightarrow> Some (Returns (handler error), log2)
                 | Some (Returns totalSize, log2) \<Rightarrow>
                     Some (Returns
                            \<lparr>status = 200,
                             body = BucketDetails name (totalCount filesResult) totalSize
                                      (case totalCount filesResult of
                                         Some n \<Rightarrow> n > 0 | None \<Rightarrow> False)\<rparr>,
                           log2))))"

text \<open>
  \<open>DELETE /buckets/:bucket/files/:key\<close>: the key is decoded first, the two schema
  checks read the parameters as they arrived, and the deletion takes the decoded key.
\<close>

definition deleteFileRoute :: "provider \<Rightarrow> string \<Rightarrow> string \<Rightarrow> httpReply action" where
  "deleteFileRoute P bucket key =
     try_catch
       (await (\<lambda>log. (decodeURIComponent key, log)) (\<lambda>decodedKey.
          if fileKeySchema bucket \<noteq> None \<or> fileKeySchema key \<noteq> None then
            return \<lparr>status = 400, body = Outcome False ''Invalid bucket name or file key''\<rparr>
          else
            await (deleteFile P bucket decodedKey) (\<lambda>result.
              return \<lparr>status = 200, body = Outcome True (message result)\<rparr>)))
       (\<lambda>error.
          if str_includes (error_message error) ''not found''
             \<or> str_includes (error_message error) ''does not exist'' then
            return \<lparr>status = 404, body = Outcome False ''File not found''\<rparr>
          else return \<lparr>status = 500, body = Outcome False (error_message error)\<rparr>)"

section \<open>Vocabulary of the properties\<close>

text \<open>
  The six messages \<open>validateBucketName\<close> can throw, and what its completion is:
  a normal return, or a thrown \<open>Error\<close> with one of these messages.
\<close>

definition rejectionReasons :: "string list" where
  "rejectionReasons =
     [''Bucket name is required'',
      ''Bucket name must be between 3 and 63 characters'',
      ''Bucket name can only contain lowercase letters, numbers, dots, and hyphens'',
      ''Bucket name cannot start or end with a dot'',
      ''Bucket name cannot contain consecutive dots'',
      ''Bucket name cannot contain dots adjacent to hyphens'']"

definition verdict :: "unit completion \<Rightarrow> bool" where
  "verdict r \<longleftrightarrow>
     r = Returns () \<or> (\<exists>reason \<in> set rejectionReasons. r = Throws (Error reason))"

text \<open>
  Reading the log: a listing request, and a listing request whose \<open>MaxKeys\<close> is 1
  (the cap the specification describes for the emptiness check).
\<close>

definition isListing :: "command \<Rightarrow> bool" where
  "isListing c = (case c of ListObjectsV2Command _ _ _ _ \<Rightarrow> True | _ \<Rightarrow> False)"

definition spec_cappedAt1 :: "command \<Rightarrow> bool" where
  "spec_cappedAt1 c =
     (case c of ListObjectsV2Command _ _ maxKeys _ \<Rightarrow> maxKeys = Some 1 | _ \<Rightarrow> False)"

text \<open>
  The deletion requests for a list of access points, in order; and the hypothesis that
  the provider acknowledges the first \<open>n\<close> of them when they are sent one after the
  other, starting from the log \<open>log\<close>.
\<close>

definition deletions :: "string \<Rightarrow> accessPoint list \<Rightarrow> command list" where
  "deletions accountId aps = map (\<lambda>ap. DeleteAccessPointCommand accountId (Name ap)) aps"

definition acknowledged ::
  "provider \<Rightarrow> command list \<Rightarrow> string \<Rightarrow> accessPoint list \<Rightarrow> nat \<Rightarrow> bool" where
  "acknowledged P log accountId aps n \<longleftrightarrow>
     (\<forall>k<n. \<exists>out. P (log @ deletions accountId (take k aps))
                    (DeleteAccessPointCommand accountId (Name (aps ! k))) = Resolves out)"

text \<open>
  A provider that answers the \<open>k\<close>-th command of a run with the \<open>k\<close>-th entry of a
  script, and with \<open>otherwise\<close> once the script is used up.
\<close>

definition scripted :: "reply list \<Rightarrow> reply \<Rightarrow> provider" where
  "scripted script otherwise log command =
     (if length log < length script then script ! length log else otherwise)"

text \<open>
  The scenarios of the specification as providers. \<open>demo\<close> holds two items; \<open>demo2\<close>
  is empty and has the access points \<open>ap1\<close> and \<open>ap2\<close>: its deletion is refused with
  the provider's text about attached access points (\<open>blockedProvider\<close>, plain delete),
  its access points and then the bucket are deleted (\<open>forcedProvider\<close>, forced
  delete), or the deletion of the second access point fails (\<open>failingProvider\<close>).
  \<open>bareProvider\<close> lists no access point.
\<close>

definition demoItems :: "s3Object list" where
  "demoItems =
     [\<lparr>Key = ''a.txt'', Size = 3, LastModified = ''2024-01-01T00:00:00.000Z'',
       ETag = ''e1'', StorageClass = None\<rparr>,
      \<lparr>Key = ''b.txt'', Size = 4, LastModified = ''2024-01-02T00:00:00.000Z'',
       ETag = ''e2'', StorageClass = Some ''STANDARD''\<rparr>]"

definition nonEmptyProvider :: provider where
  "nonEmptyProvider =
     scripted [Resolves (emptyResponse\<lparr>Contents := Some demoItems, KeyCount := Some 2\<rparr>)]
       (Resolves emptyResponse)"

definition demo2AccessPoints :: "accessPoint list" where
  "demo2AccessPoints =
     [\<lparr>Name = ''ap1'', Bucket = ''demo2''\<rparr>, \<lparr>Name = ''ap2'', Bucket = ''demo2''\<rparr>]"

definition blockedProvider :: provider where
  "blockedProvider =
     scripted
       [Resolves (emptyResponse\<lparr>Contents := Some [], KeyCount := Some 0\<rparr>),
        Rejects (Error ''Bucket has access points attached''),
        Resolves (emptyResponse\<lparr>AccessPointList := Some demo2AccessPoints\<rparr>)]
       (Resolves emptyResponse)"

definition forcedProvider :: provider where
  "forcedProvider =
     scripted [Resolves (emptyResponse\<lparr>AccessPointList := Some demo2AccessPoints\<rparr>)]
       (Resolves emptyResponse)"

definition failingProvider :: provider where
  "failingProvider =
     scripted
       [Resolves (emptyResponse\<lparr>AccessPointList := Some demo2AccessPoints\<rparr>),
        Resolves emptyResponse,
        Rejects (Error ''Service Unavailable'')]
       (Resolves emptyResponse)"

definition bareProvider :: provider where
  "bareProvider =
     scripted [Resolves (emptyResponse\<lparr>AccessPointList := Some []\<rparr>)]
       (Resolves emptyResponse)"

text \<open>
  A bucket with more objects than one page of 1000 holds: every listing request that
  carries no continuation token is answered with the first page (the objects \<open>0\<close>
  to \<open>999\<close>), which is truncated and brings a continuation token
  (\<open>largeBucketProvider\<close>). \<open>alwaysTruncated\<close> is that behaviour for an arbitrary
  provider. \<open>truncatedPage\<close> and \<open>lastPage\<close> are two short pages.
\<close>

definition firstPage :: response where
  "firstPage =
     \<lparr>Contents = Some (map (\<lambda>i. \<lparr>Key = showNat i, Size = 1,
                                   LastModified = ''2024-01-01T00:00:00.000Z'',
                                   ETag = ''e'', StorageClass = None\<rparr>) [0..<1000]),
      IsTruncated = Some True, NextContinuationToken = Some ''token-1000'',
      KeyCount = Some 1000, AccessPointList = None\<rparr>"

definition truncatedPage :: response where
  "truncatedPage =
     \<lparr>Contents = Some demoItems, IsTruncated = Some True,
      NextContinuationToken = Some ''token-1'', KeyCount = Some 2, AccessPointList = None\<rparr>"

definition lastPage :: response where
  "lastPage =
     \<lparr>Contents = Some demoItems, IsTruncated = Some False,
      NextContinuationToken = None, KeyCount = Some 2, AccessPointList = None\<rparr>"

definition largeBucketProvider :: provider where
  "largeBucketProvider = scripted [] (Resolves firstPage)"

definition alwaysTruncated :: "provider \<Rightarrow> bool" where
  "alwaysTruncated P \<longleftrightarrow>
     (\<forall>log command. \<exists>r. P log command = Resolves r \<and> truthy (NextContinuationToken r))"

section \<open>Properties of the Naming Validator\<close>

lemma startsWith_dot: "startsWith s ''.'' \<longleftrightarrow> s \<noteq> [] \<and> hd s = CHR ''.''"
  by (cases s) (auto simp: startsWith_def)

lemma endsWith_dot: "endsWith s ''.'' \<longleftrightarrow> s \<noteq> [] \<and> last s = CHR ''.''"
  by (cases s rule: rev_cases) (auto simp: endsWith_def suffix_def)

lemma str_includes_iff: "str_includes s t \<longleftrightarrow> (\<exists>u v. s = u @ t @ v)"
  by (simp add: str_includes_def sublist_def)

lemma bucketNamePattern_iff: "bucketNamePattern s \<longleftrightarrow> s \<noteq> [] \<and> (\<forall>c \<in> set s. bucketChar c)"
  by (simp add: bucketNamePattern_def list_all_iff)

lemmas str_eval =
  startsWith_def endsWith_def str_includes_def sublist_code prefix_code suffix_to_prefix
  jsLength_def utf16Units_def bucketNamePattern_def bucketChar_def

lemma Error_eq_iff: "Error a = Error b \<longleftrightarrow> a = b"
  by (simp add: Error_def)

lemma validateBucketName_Returns_iff:
  "validateBucketName s = Returns () \<longleftrightarrow> spec_validName s"
  unfolding validateBucketName_def spec_validName_def startsWith_dot endsWith_dot
    str_includes_iff bucketNamePattern_iff
  by auto

lemma verdict_Returns: "verdict (Returns ())"
  by (simp add: verdict_def)

lemma verdict_Throws: "reason \<in> set rejectionReasons \<Longrightarrow> verdict (Throws (Error reason))"
  by (auto simp: verdict_def)

lemma verdict_validateBucketName: "verdict (validateBucketName s)"
  unfolding validateBucketName_def
  by (simp add: verdict_Returns verdict_Throws rejectionReasons_def del: set_simps
        add: list.set_intros)

lemma validateBucketName_required: "s = [] \<Longrightarrow> validateBucketName s = Throws (Error ''Bucket name is required'')"
  by (simp add: validateBucketName_def)

lemma jsLength_Nil: "jsLength [] = 0"
  by (simp add: jsLength_def)

lemma validateBucketName_length:
  "s \<noteq> [] \<Longrightarrow> jsLength s < 3 \<or> 63 < jsLength s \<Longrightarrow>
   validateBucketName s = Throws (Error ''Bucket name must be between 3 and 63 characters'')"
  by (simp add: validateBucketName_def)

lemma validateBucketName_pattern:
  "3 \<le> jsLength s \<Longrightarrow> jsLength s \<le> 63 \<Longrightarrow> \<not> bucketNamePattern s \<Longrightarrow>
   validateBucketName s = Throws (Error ''Bucket name can only contain lowercase letters, numbers, dots, and hyphens'')"
  by (auto simp: validateBucketName_def jsLength_Nil)

lemma validateBucketName_ends:
  "3 \<le> jsLength s \<Longrightarrow> jsLength s \<le> 63 \<Longrightarrow> bucketNamePattern s \<Longrightarrow>
   startsWith s ''.'' \<or> endsWith s ''.'' \<Longrightarrow>
   validateBucketName s = Throws (Error ''Bucket name cannot start or end with a dot'')"
  by (auto simp: validateBucketName_def jsLength_Nil)

lemma validateBucketName_consecutive:
  "3 \<le> jsLength s \<Longrightarrow> jsLength s \<le> 63 \<Longrightarrow> bucketNamePattern s \<Longrightarrow>
   \<not> startsWith s ''.'' \<Longrightarrow> \<not> endsWith s ''.'' \<Longrightarrow> str_includes s ''..'' \<Longrightarrow>
   validateBucketName s = Throws (Error ''Bucket name cannot contain consecutive dots'')"
  by (auto simp: validateBucketName_def jsLength_Nil)

lemma validateBucketName_adjacent:
  "3 \<le> jsLength s \<Longrightarrow> jsLength s \<le> 63 \<Longrightarrow> bucketNamePattern s \<Longrightarrow>
   \<not> startsWith s ''.'' \<Longrightarrow> \<not> endsWith s ''.'' \<Longrightarrow> \<not> str_includes s ''..'' \<Longrightarrow>
   str_includes s ''.-'' \<or> str_includes s ''-.'' \<Longrightarrow>
   validateBucketName s = Throws (Error ''Bucket name cannot contain dots adjacent to hyphens'')"
  by (auto simp: validateBucketName_def jsLength_Nil)

lemma validateBucketName_some_reason:
  "\<not> spec_validName s \<Longrightarrow>
   \<exists>reason \<in> set rejectionReasons. validateBucketName s = Throws (Error reason)"
  using verdict_validateBucketName [of s] validateBucketName_Returns_iff [of s]
  by (auto simp: verdict_def)

text \<open>
  C6. The validator accepts a name exactly when the name has the shape the
  specification describes (length in [3,63], only characters of \<open>[a-z0-9.-]\<close>, no dot
  at either end, no two dots in a row, no dot next to a hyphen). Every other name is
  rejected with a reason: one of the six messages, namely the message of the first
  rule, in the order of the checks, that the name breaks; and each message thrown
  names a rule that the name does break.
\<close>

theorem validateBucketName_rules:
  "(validateBucketName s = Returns () \<longleftrightarrow> spec_validName s)
   \<and> (validateBucketName s = Throws (Error ''Bucket name is required'') \<longrightarrow> s = [])
   \<and> (validateBucketName s = Throws (Error ''Bucket name must be between 3 and 63 characters'')
        \<longrightarrow> jsLength s < 3 \<or> 63 < jsLength s)
   \<and> (validateBucketName s = Throws (Error ''Bucket name can only contain lowercase letters, numbers, dots, and hyphens'')
        \<longrightarrow> \<not> bucketNamePattern s)
   \<and> (validateBucketName s = Throws (Error ''Bucket name cannot start or end with a dot'')
        \<longrightarrow> startsWith s ''.'' \<or> endsWith s ''.'')
   \<and> (validateBucketName s = Throws (Error ''Bucket name cannot contain consecutive dots'')
        \<longrightarrow> str_includes s ''..'')
   \<and> (validateBucketName s = Throws (Error ''Bucket name cannot contain dots adjacent to hyphens'')
        \<longrightarrow> str_includes s ''.-'' \<or> str_includes s ''-.'')
   \<and> (\<not> spec_validName s \<longrightarrow>
        (\<exists>reason \<in> set rejectionReasons. validateBucketName s = Throws (Error reason)))
   \<and> (s = [] \<longrightarrow> validateBucketName s = Throws (Error ''Bucket name is required''))
   \<and> (s \<noteq> [] \<and> (jsLength s < 3 \<or> 63 < jsLength s) \<longrightarrow>
        validateBucketName s = Throws (Error ''Bucket name must be between 3 and 63 characters''))
   \<and> (3 \<le> jsLength s \<and> jsLength s \<le> 63 \<and> \<not> bucketNamePattern s \<longrightarrow>
        validateBucketName s = Throws (Error ''Bucket name can only contain lowercase letters, numbers, dots, and hyphens''))
   \<and> (3 \<le> jsLength s \<and> jsLength s \<le> 63 \<and> bucketNamePattern s
        \<and> (startsWith s ''.'' \<or> endsWith s ''.'') \<longrightarrow>
        validateBucketName s = Throws (Error ''Bucket name cannot start or end with a dot''))
   \<and> (3 \<le> jsLength s \<and> jsLength s \<le> 63 \<and> bucketNamePattern s
        \<and> \<not> startsWith s ''.'' \<and> \<not> endsWith s ''.'' \<and> str_includes s ''..'' \<longrightarrow>
        validateBucketName s = Throws (Error ''Bucket name cannot contain consecutive dots''))
   \<and> (3 \<le> jsLength s \<and> jsLength s \<le> 63 \<and> bucketNamePattern s
        \<and> \<not> startsWith s ''.'' \<and> \<not> endsWith s ''.'' \<and> \<not> str_includes s ''..''
        \<and> (str_includes s ''.-'' \<or> str_includes s ''-.'') \<longrightarrow>
        validateBucketName s = Throws (Error ''Bucket name cannot contain dots adjacent to hyphens''))"
proof (intro conjI)
  show "validateBucketName s = Returns () \<longleftrightarrow> spec_validName s"
    by (rule validateBucketName_Returns_iff)
  show "\<not> spec_validName s \<longrightarrow>
        (\<exists>reason \<in> set rejectionReasons. validateBucketName s = Throws (Error reason))"
    by (blast intro: validateBucketName_some_reason)
  show "s = [] \<longrightarrow> validateBucketName s = Throws (Error ''Bucket name is required'')"
    by (blast intro: validateBucketName_required)
  show "s \<noteq> [] \<and> (jsLength s < 3 \<or> 63 < jsLength s) \<longrightarrow>
        validateBucketName s = Throws (Error ''Bucket name must be between 3 and 63 characters'')"
    by (blast intro: validateBucketName_length)
  show "3 \<le> jsLength s \<and> jsLength s \<le> 63 \<and> \<not> bucketNamePattern s \<longrightarrow>
        validateBucketName s = Throws (Error ''Bucket name can only contain lowercase letters, numbers, dots, and hyphens'')"
    by (blast intro: validateBucketName_pattern)
  show "3 \<le> jsLength s \<and> jsLength s \<le> 63 \<and> bucketNamePattern s
        \<and> (startsWith s ''.'' \<or> endsWith s ''.'') \<longrightarrow>
        validateBucketName s = Throws (Error ''Bucket name cannot start or end with a dot'')"
    by (blast intro: validateBucketName_ends)
  show "3 \<le> jsLength s \<and> jsLength s \<le> 63 \<and> bucketNamePattern s
        \<and> \<not> startsWith s ''.'' \<and> \<not> endsWith s ''.'' \<and> str_includes s ''..'' \<longrightarrow>
        validateBucketName s = Throws (Error ''Bucket name cannot contain consecutive dots'')"
    by (blast intro: validateBucketName_consecutive)
  show "3 \<le> jsLength s \<and> jsLength s \<le> 63 \<and> bucketNamePattern s
        \<and> \<not> startsWith s ''.'' \<and> \<not> endsWith s ''.'' \<and> \<not> str_includes s ''..''
        \<and> (str_includes s ''.-'' \<or> str_includes s ''-.'') \<longrightarrow>
        validateBucketName s = Throws (Error ''Bucket name cannot contain dots adjacent to hyphens'')"
    by (blast intro: validateBucketName_adjacent)
qed (simp_all add: validateBucketName_def Error_eq_iff split: if_splits)

theorem validateBucketName_rules_witness:
  "validateBucketName ''valid-bucket.name'' = Returns () \<and> spec_validName ''valid-bucket.name''
   \<and> ''ab'' \<noteq> [] \<and> (jsLength ''ab'' < 3 \<or> 63 < jsLength ''ab'')
   \<and> validateBucketName ''ab'' = Throws (Error ''Bucket name must be between 3 and 63 characters'')
   \<and> 3 \<le> jsLength ''my..bucket'' \<and> jsLength ''my..bucket'' \<le> 63
   \<and> bucketNamePattern ''my..bucket''
   \<and> \<not> startsWith ''my..bucket'' ''.'' \<and> \<not> endsWith ''my..bucket'' ''.''
   \<and> str_includes ''my..bucket'' ''..''
   \<and> validateBucketName ''my..bucket'' = Throws (Error ''Bucket name cannot contain consecutive dots'')
   \<and> \<not> spec_validName ''my..bucket''"
proof -
  note ta = validateBucketName_rules [of "''valid-bucket.name''"]
  note tb = validateBucketName_rules [of "''ab''"]
  note tc = validateBucketName_rules [of "''my..bucket''"]
  have a: "validateBucketName ''valid-bucket.name'' = Returns ()"
    by (simp add: validateBucketName_def str_eval)
  from ta have "validateBucketName ''valid-bucket.name'' = Returns ()
      \<longleftrightarrow> spec_validName ''valid-bucket.name''"
    by (rule conjunct1)
  with a have a': "spec_validName ''valid-bucket.name''"
    by (rule iffD1 [rotated])
  have hb: "''ab'' \<noteq> [] \<and> (jsLength ''ab'' < 3 \<or> 63 < jsLength ''ab'')"
    by (simp add: str_eval)
  from tb have "''ab'' \<noteq> [] \<and> (jsLength ''ab'' < 3 \<or> 63 < jsLength ''ab'') \<longrightarrow>
      validateBucketName ''ab'' = Throws (Error ''Bucket name must be between 3 and 63 characters'')"
    by (elim conjE)
  with hb have b: "validateBucketName ''ab'' =
      Throws (Error ''Bucket name must be between 3 and 63 characters'')"
    by (rule rev_mp)
  have hc: "3 \<le> jsLength ''my..bucket'' \<and> jsLength ''my..bucket'' \<le> 63
      \<and> bucketNamePattern ''my..bucket''
      \<and> \<not> startsWith ''my..bucket'' ''.'' \<and> \<not> endsWith ''my..bucket'' ''.''
      \<and> str_includes ''my..bucket'' ''..''"
    by (simp add: str_eval)
  from tc have "3 \<le> jsLength ''my..bucket'' \<and> jsLength ''my..bucket'' \<le> 63
      \<and> bucketNamePattern ''my..bucket''
      \<and> \<not> startsWith ''my..bucket'' ''.'' \<and> \<not> endsWith ''my..bucket'' ''.''
      \<and> str_includes ''my..bucket'' ''..'' \<longrightarrow>
      validateBucketName ''my..bucket'' = Throws (Error ''Bucket name cannot contain consecutive dots'')"
    by (elim conjE)
  with hc have c: "validateBucketName ''my..bucket'' =
      Throws (Error ''Bucket name cannot contain consecutive dots'')"
    by (rule rev_mp)
  from tc have "validateBucketName ''my..bucket'' = Returns () \<longleftrightarrow> spec_validName ''my..bucket''"
    by (rule conjunct1)
  with c have c': "\<not> spec_validName ''my..bucket''"
    by simp
  from a a' hb b hc c c' show ?thesis
    by (intro conjI) (erule conjunct1 conjunct2 | assumption | blast)+
qed

lemma validateBucketName_Throws_iff:
  "(\<exists>e. validateBucketName s = Throws e) \<longleftrightarrow> \<not> spec_validName s"
proof -
  have "(\<exists>e. validateBucketName s = Throws e) \<longleftrightarrow> validateBucketName s \<noteq> Returns ()"
    by (cases "validateBucketName s") auto
  then show ?thesis
    by (simp add: validateBucketName_Returns_iff)
qed

text \<open>
  C7, as the code has it. The validator completes on every string, and it does so in
  one of two ways: it returns, or it throws an \<open>Error\<close> whose message is one of six
  fixed reasons. It throws exactly on the names that break a rule.
\<close>

theorem validateBucketName_returns_or_throws:
  "verdict (validateBucketName s)
   \<and> ((\<exists>e. validateBucketName s = Throws e) \<longleftrightarrow> \<not> spec_validName s)"
  by (simp only: verdict_validateBucketName validateBucketName_Throws_iff simp_thms)

theorem validateBucketName_returns_or_throws_witness:
  "verdict (validateBucketName ''my..bucket'') \<and> \<not> spec_validName ''my..bucket''
   \<and> validateBucketName ''my..bucket'' = Throws (Error ''Bucket name cannot contain consecutive dots'')"
proof -
  have c: "validateBucketName ''my..bucket'' = Throws (Error ''Bucket name cannot contain consecutive dots'')"
    by (simp add: validateBucketName_def str_eval)
  from validateBucketName_returns_or_throws [of "''my..bucket''"]
  have "verdict (validateBucketName ''my..bucket'')"
    and "(\<exists>e. validateBucketName ''my..bucket'' = Throws e) \<longleftrightarrow> \<not> spec_validName ''my..bucket''"
    by (rule conjunct1, rule conjunct2)
  with c show ?thesis by blast
qed

text \<open>
  C7 as the specification states it (the validator never throws) fails: the name
  \<open>ab\<close> makes \<open>validateBucketName\<close> throw.
\<close>

theorem validateBucketName_never_throws_counterexample:
  "validateBucketName ''ab'' = Throws (Error ''Bucket name must be between 3 and 63 characters'')"
  by (simp add: validateBucketName_def str_eval)

section \<open>Properties of the deletion workflows\<close>

lemmas action_defs = return_def throw_def await_def try_catch_def send_def

lemmas run_eval =
  action_defs scripted_def truthy_def emptyResponse_def listAccessPoints_def
  deleteAccessPoint_def digitChar_def Error_def

lemma try_catch_rethrow_Returns:
  "fst (try_catch m (\<lambda>error. throw (f error)) log) = Returns v \<Longrightarrow> fst (m log) = Returns v"
  by (auto simp: try_catch_def throw_def split: prod.splits completion.splits)

lemma await_Returns:
  "fst (await m f log) = Returns v \<Longrightarrow>
   \<exists>x log'. m log = (Returns x, log') \<and> fst (f x log') = Returns v"
  by (auto simp: await_def split: prod.splits completion.splits)

lemma listAccessPoints_log:
  "snd (listAccessPoints P bucketName accountId log) =
     log @ [ListAccessPointsCommand accountId bucketName]"
  by (simp add: listAccessPoints_def action_defs split: reply.splits)

lemma listAccessPoints_Resolves:
  "P log (ListAccessPointsCommand accountId bucketName) = Resolves r \<Longrightarrow>
   AccessPointList r = Some aps \<Longrightarrow>
   listAccessPoints P bucketName accountId log =
     (Returns aps, log @ [ListAccessPointsCommand accountId bucketName])"
  by (simp add: listAccessPoints_def action_defs)

lemma deleteAccessPoint_Resolves:
  "P log (DeleteAccessPointCommand accountId n) = Resolves out \<Longrightarrow>
   deleteAccessPoint P n accountId log =
     (Returns \<lparr>success = True, message = ''Access point '' @ n @ '' deleted successfully''\<rparr>,
      log @ [DeleteAccessPointCommand accountId n])"
  by (simp add: deleteAccessPoint_def action_defs)

lemma deleteAccessPoint_Rejects:
  "P log (DeleteAccessPointCommand accountId n) = Rejects e \<Longrightarrow>
   deleteAccessPoint P n accountId log =
     (Throws (Error (''Failed to delete access point '' @ n @ '': '' @ error_message e)),
      log @ [DeleteAccessPointCommand accountId n])"
  by (simp add: deleteAccessPoint_def action_defs)

lemma acknowledged_Cons:
  "acknowledged P log accountId (a # aps) (Suc n) \<longleftrightarrow>
     (\<exists>out. P log (DeleteAccessPointCommand accountId (Name a)) = Resolves out)
     \<and> acknowledged P (log @ [DeleteAccessPointCommand accountId (Name a)]) accountId aps n"
  unfolding acknowledged_def deletions_def
  by (auto simp: less_Suc_eq_0_disj)

lemma for_of_acknowledged:
  "acknowledged P log accountId aps (length aps) \<Longrightarrow>
   for_of aps (\<lambda>accessPoint. deleteAccessPoint P (Name accessPoint) accountId) log =
     (Returns (), log @ deletions accountId aps)"
proof (induction aps arbitrary: log)
  case Nil
  then show ?case by (simp add: deletions_def)
next
  case (Cons a aps)
  from Cons.prems obtain out where
    a: "P log (DeleteAccessPointCommand accountId (Name a)) = Resolves out"
    and rest: "acknowledged P (log @ [DeleteAccessPointCommand accountId (Name a)])
                 accountId aps (length aps)"
    by (auto simp: acknowledged_Cons)
  from Cons.IH [OF rest] a show ?case
    by (simp add: deleteAccessPoint_Resolves deletions_def)
qed

lemma for_of_rejected:
  "i < length aps \<Longrightarrow> acknowledged P log accountId aps i \<Longrightarrow>
   P (log @ deletions accountId (take i aps))
     (DeleteAccessPointCommand accountId (Name (aps ! i))) = Rejects e \<Longrightarrow>
   for_of aps (\<lambda>accessPoint. deleteAccessPoint P (Name accessPoint) accountId) log =
     (Throws (Error (''Failed to delete access point '' @ Name (aps ! i) @ '': ''
                     @ error_message e)),
      log @ deletions accountId (take (Suc i) aps))"
proof (induction aps arbitrary: log i)
  case Nil
  then show ?case by simp
next
  case (Cons a aps)
  show ?case
  proof (cases i)
    case 0
    with Cons.prems show ?thesis
      by (simp add: deleteAccessPoint_Rejects deletions_def)
  next
    case (Suc j)
    from Cons.prems Suc obtain out where
      a: "P log (DeleteAccessPointCommand accountId (Name a)) = Resolves out"
      and rest: "acknowledged P (log @ [DeleteAccessPointCommand accountId (Name a)])
                   accountId aps j"
      by (auto simp: acknowledged_Cons)
    from Cons.prems Suc have j: "j < length aps" by simp
    from Cons.prems Suc
    have rej: "P ((log @ [DeleteAccessPointCommand accountId (Name a)])
                  @ deletions accountId (take j aps))
                 (DeleteAccessPointCommand accountId (Name (aps ! j))) = Rejects e"
      by (simp add: deletions_def)
    from Cons.IH [OF j rest rej] a Suc show ?thesis
      by (simp add: deleteAccessPoint_Resolves deletions_def)
  qed
qed

lemma deleteBucket_log:
  "\<exists>rest. snd (deleteBucket P AWS_ACCOUNT_ID bucketName log) =
            log @ ListObjectsV2Command bucketName None None None # rest
          \<and> list_all (\<lambda>c. \<not> isListing c) rest"
proof (cases "P log (ListObjectsV2Command bucketName None None None)")
  case (Rejects e)
  then show ?thesis by (simp add: deleteBucket_def action_defs)
next
  case (Resolves r)
  show ?thesis
  proof (cases "case Contents r of Some cs \<Rightarrow> length cs > 0 | None \<Rightarrow> False")
    case True
    with Resolves show ?thesis by (simp add: deleteBucket_def action_defs)
  next
    case False
    let ?log1 = "log @ [ListObjectsV2Command bucketName None None None]"
    show ?thesis
    proof (cases "P ?log1 (DeleteBucketCommand bucketName)")
      case r2: (Resolves r')
      with Resolves False show ?thesis
        by (simp add: deleteBucket_def action_defs isListing_def)
    next
      case r2: (Rejects e)
      let ?log2 = "log @ [ListObjectsV2Command bucketName None None None,
                          DeleteBucketCommand bucketName]"
      obtain aps lg where
        l: "listAccessPoints P bucketName (the AWS_ACCOUNT_ID) ?log2 = (aps, lg)"
        by (cases "listAccessPoints P bucketName (the AWS_ACCOUNT_ID) ?log2")
      from listAccessPoints_log [of P bucketName "the AWS_ACCOUNT_ID" ?log2] l
      have lg: "lg = ?log2 @ [ListAccessPointsCommand (the AWS_ACCOUNT_ID) bucketName]"
        by simp
      from Resolves False r2 l lg show ?thesis
        by (cases aps)
          (simp_all add: deleteBucket_def action_defs isListing_def split: completion.splits)
    qed
  qed
qed

text \<open>
  C3. When the listing that opens plain delete shows at least one item, plain delete
  throws the "contains objects" error (the route answers it with 409), and the listing
  is the only command sent: no delete request reaches the provider.
\<close>

theorem plain_delete_not_empty:
  assumes "P log (ListObjectsV2Command bucketName None None None) = Resolves objectsResponse"
    and "Contents objectsResponse = Some (item # items)"
  shows "deleteBucket P AWS_ACCOUNT_ID bucketName log =
           (Throws (Error ''Failed to delete bucket: Cannot delete bucket that contains objects''),
            log @ [ListObjectsV2Command bucketName None None None])
         \<and> (bucketNameSchema bucketName = None \<longrightarrow>
              deleteBucketRoute P AWS_ACCOUNT_ID bucketName log =
                (Returns \<lparr>status = 409, body = Outcome False
                   ''Failed to delete bucket: Cannot delete bucket that contains objects''\<rparr>,
                 log @ [ListObjectsV2Command bucketName None None None]))"
proof -
  have d: "deleteBucket P AWS_ACCOUNT_ID bucketName log =
           (Throws (Error ''Failed to delete bucket: Cannot delete bucket that contains objects''),
            log @ [ListObjectsV2Command bucketName None None None])"
    using assms by (simp add: deleteBucket_def action_defs Error_def)
  have i: "str_includes ''Failed to delete bucket: Cannot delete bucket that contains objects''
             ''contains objects''"
    by (simp add: str_includes_def sublist_code prefix_code)
  from d i show ?thesis
    by (simp add: deleteBucketRoute_def try_catch_def await_def return_def Error_def)
qed

theorem plain_delete_not_empty_witness:
  "deleteBucket nonEmptyProvider None ''demo'' [] =
     (Throws (Error ''Failed to delete bucket: Cannot delete bucket that contains objects''),
      [ListObjectsV2Command ''demo'' None None None])
   \<and> deleteBucketRoute nonEmptyProvider None ''demo'' [] =
       (Returns \<lparr>status = 409, body = Outcome False
          ''Failed to delete bucket: Cannot delete bucket that contains objects''\<rparr>,
        [ListObjectsV2Command ''demo'' None None None])"
proof -
  have r: "nonEmptyProvider [] (ListObjectsV2Command ''demo'' None None None) =
        Resolves (emptyResponse\<lparr>Contents := Some demoItems, KeyCount := Some 2\<rparr>)"
    by (simp add: nonEmptyProvider_def scripted_def)
  have c: "Contents (emptyResponse\<lparr>Contents := Some demoItems, KeyCount := Some 2\<rparr>) =
        Some (hd demoItems # tl demoItems)"
    by (simp add: demoItems_def)
  have s: "bucketNameSchema ''demo'' = None"
    by (simp add: bucketNameSchema_def str_eval)
  from plain_delete_not_empty [where P = nonEmptyProvider and log = "[]"
      and bucketName = "''demo''" and AWS_ACCOUNT_ID = None, OF r c] s
  show ?thesis by simp
qed

lemma deleteBucket_item_present:
  assumes "P log (ListObjectsV2Command bucketName None None None) = Resolves r"
    and "Contents r = Some (item # items)"
  shows "deleteBucket P AWS_ACCOUNT_ID bucketName log =
           (Throws (Error ''Failed to delete bucket: Cannot delete bucket that contains objects''),
            log @ [ListObjectsV2Command bucketName None None None])"
  using assms by (simp add: deleteBucket_def action_defs Error_def)

lemma deleteBucket_listing_rejected:
  assumes "P log (ListObjectsV2Command bucketName None None None) = Rejects e"
  shows "deleteBucket P AWS_ACCOUNT_ID bucketName log =
           (Throws (Error (''Failed to delete bucket: '' @ error_message e)),
            log @ [ListObjectsV2Command bucketName None None None])"
  using assms by (simp add: deleteBucket_def action_defs)

lemma deleteBucket_no_item:
  assumes "P log (ListObjectsV2Command bucketName None None None) = Resolves r"
    and "Contents r = None \<or> Contents r = Some []"
  shows "\<exists>rest. snd (deleteBucket P AWS_ACCOUNT_ID bucketName log) =
           log @ ListObjectsV2Command bucketName None None None
               # DeleteBucketCommand bucketName # rest"
proof -
  from assms(2) have False: "\<not> (case Contents r of Some cs \<Rightarrow> length cs > 0 | None \<Rightarrow> False)"
    by auto
  let ?log1 = "log @ [ListObjectsV2Command bucketName None None None]"
  show ?thesis
  proof (cases "P ?log1 (DeleteBucketCommand bucketName)")
    case r2: (Resolves r')
    with assms(1) False show ?thesis
      by (simp add: deleteBucket_def action_defs)
  next
    case r2: (Rejects e)
    let ?log2 = "log @ [ListObjectsV2Command bucketName None None None,
                        DeleteBucketCommand bucketName]"
    obtain aps lg where
      l: "listAccessPoints P bucketName (the AWS_ACCOUNT_ID) ?log2 = (aps, lg)"
      by (cases "listAccessPoints P bucketName (the AWS_ACCOUNT_ID) ?log2")
    from listAccessPoints_log [of P bucketName "the AWS_ACCOUNT_ID" ?log2] l
    have lg: "lg = ?log2 @ [ListAccessPointsCommand (the AWS_ACCOUNT_ID) bucketName]"
      by simp
    from assms(1) False r2 l lg show ?thesis
      by (cases aps)
        (simp_all add: deleteBucket_def action_defs split: completion.splits)
  qed
qed

text \<open>
  C5, as the code has it. The emptiness check of plain delete is one listing request
  that names the bucket and nothing else: no \<open>MaxKeys\<close>, no prefix, no continuation
  token. Plain delete sends no other listing request, and it reads that one page only
  for whether it holds an item: a page with an item makes it throw and stop, a page
  without one (no \<open>Contents\<close>, or an empty one) makes it send the deletion of the
  bucket next, and a listing that fails makes it throw and stop.
\<close>

theorem plain_delete_emptiness_check:
  "(\<exists>rest. snd (deleteBucket P AWS_ACCOUNT_ID bucketName log) =
            log @ ListObjectsV2Command bucketName None None None # rest
          \<and> list_all (\<lambda>c. \<not> isListing c) rest)
   \<and> (\<forall>r item items.
         P log (ListObjectsV2Command bucketName None None None) = Resolves r
         \<and> Contents r = Some (item # items)
         \<longrightarrow> deleteBucket P AWS_ACCOUNT_ID bucketName log =
              (Throws (Error ''Failed to delete bucket: Cannot delete bucket that contains objects''),
               log @ [ListObjectsV2Command bucketName None None None]))
   \<and> (\<forall>r. P log (ListObjectsV2Command bucketName None None None) = Resolves r
         \<and> (Contents r = None \<or> Contents r = Some [])
         \<longrightarrow> (\<exists>rest. snd (deleteBucket P AWS_ACCOUNT_ID bucketName log) =
                log @ ListObjectsV2Command bucketName None None None
                    # DeleteBucketCommand bucketName # rest))
   \<and> (\<forall>e. P log (ListObjectsV2Command bucketName None None None) = Rejects e
         \<longrightarrow> deleteBucket P AWS_ACCOUNT_ID bucketName log =
              (Throws (Error (''Failed to delete bucket: '' @ error_message e)),
               log @ [ListObjectsV2Command bucketName None None None]))"
proof (intro conjI allI impI)
  show "\<exists>rest. snd (deleteBucket P AWS_ACCOUNT_ID bucketName log) =
            log @ ListObjectsV2Command bucketName None None None # rest
          \<and> list_all (\<lambda>c. \<not> isListing c) rest"
    by (rule deleteBucket_log)
next
  fix r item items
  assume "P log (ListObjectsV2Command bucketName None None None) = Resolves r
         \<and> Contents r = Some (item # items)"
  then show "deleteBucket P AWS_ACCOUNT_ID bucketName log =
              (Throws (Error ''Failed to delete bucket: Cannot delete bucket that contains objects''),
               log @ [ListObjectsV2Command bucketName None None None])"
    using deleteBucket_item_present [where P = P and log = log] by blast
next
  fix r
  assume "P log (ListObjectsV2Command bucketName None None None) = Resolves r
         \<and> (Contents r = None \<or> Contents r = Some [])"
  then show "\<exists>rest. snd (deleteBucket P AWS_ACCOUNT_ID bucketName log) =
                log @ ListObjectsV2Command bucketName None None None
                    # DeleteBucketCommand bucketName # rest"
    using deleteBucket_no_item [where P = P and log = log and r = r] by blast
next
  fix e
  assume "P log (ListObjectsV2Command bucketName None None None) = Rejects e"
  then show "deleteBucket P AWS_ACCOUNT_ID bucketName log =
              (Throws (Error (''Failed to delete bucket: '' @ error_message e)),
               log @ [ListObjectsV2Command bucketName None None None])"
    by (rule deleteBucket_listing_rejected)
qed

theorem plain_delete_emptiness_check_witness:
  "deleteBucket nonEmptyProvider None ''demo'' [] =
     (Throws (Error ''Failed to delete bucket: Cannot delete bucket that contains objects''),
      [] @ [ListObjectsV2Command ''demo'' None None None])
   \<and> (\<exists>rest. snd (deleteBucket bareProvider None ''demo'' []) =
         [] @ ListObjectsV2Command ''demo'' None None None # DeleteBucketCommand ''demo'' # rest)
   \<and> (\<exists>rest. snd (deleteBucket nonEmptyProvider None ''demo'' []) =
            [] @ ListObjectsV2Command ''demo'' None None None # rest
          \<and> list_all (\<lambda>c. \<not> isListing c) rest)"
proof -
  let ?c = "ListObjectsV2Command ''demo'' None None None"
  have r1: "nonEmptyProvider [] ?c =
        Resolves (emptyResponse\<lparr>Contents := Some demoItems, KeyCount := Some 2\<rparr>)
      \<and> Contents (emptyResponse\<lparr>Contents := Some demoItems, KeyCount := Some 2\<rparr>) =
        Some (hd demoItems # tl demoItems)"
    by (simp add: nonEmptyProvider_def scripted_def demoItems_def)
  have r2: "bareProvider [] ?c = Resolves (emptyResponse\<lparr>AccessPointList := Some []\<rparr>)
      \<and> (Contents (emptyResponse\<lparr>AccessPointList := Some []\<rparr>) = None
           \<or> Contents (emptyResponse\<lparr>AccessPointList := Some []\<rparr>) = Some [])"
    by (simp add: bareProvider_def scripted_def emptyResponse_def)
  note t1 = plain_delete_emptiness_check [of nonEmptyProvider None "''demo''" "[]"]
  note t2 = plain_delete_emptiness_check [of bareProvider None "''demo''" "[]"]
  from t1 r1 have a: "deleteBucket nonEmptyProvider None ''demo'' [] =
     (Throws (Error ''Failed to delete bucket: Cannot delete bucket that contains objects''),
      [] @ [?c])"
    by blast
  from t2 r2 have b: "\<exists>rest. snd (deleteBucket bareProvider None ''demo'' []) =
         [] @ ?c # DeleteBucketCommand ''demo'' # rest"
    by blast
  from t1 have c: "\<exists>rest. snd (deleteBucket nonEmptyProvider None ''demo'' []) =
            [] @ ?c # rest \<and> list_all (\<lambda>c. \<not> isListing c) rest"
    by (rule conjunct1)
  from a b c show ?thesis by (intro conjI)
qed

text \<open>
  C5 as the specification states it (the listing request is capped at 1 result) fails:
  the request of plain delete carries no \<open>MaxKeys\<close>.
\<close>

theorem plain_delete_capped_listing_counterexample:
  "snd (deleteBucket bareProvider None ''demo'' []) =
      [ListObjectsV2Command ''demo'' None None None, DeleteBucketCommand ''demo'']
   \<and> \<not> spec_cappedAt1 (ListObjectsV2Command ''demo'' None None None)"
  by (simp add: deleteBucket_def bareProvider_def run_eval spec_cappedAt1_def)

text \<open>
  C1, as the code has it. Let the provider list the access points \<open>aps\<close>. If it
  acknowledges every deletion and the deletion of the bucket, forced delete sends the
  deletions in the listed order, then the deletion of the bucket, and returns the
  message with the number of access points (the plain message when there is none).
  If the deletion of access point \<open>i\<close> is the first to fail, that request is the last
  command sent (no later access point, no bucket deletion), and the error names the
  access point that failed and the provider's message; it states no count.
\<close>

theorem forced_delete_fail_stop:
  assumes "P log (ListAccessPointsCommand accountId bucketName) = Resolves listing"
    and "AccessPointList listing = Some aps"
  shows
    "(acknowledged P (log @ [ListAccessPointsCommand accountId bucketName]) accountId aps (length aps)
      \<and> (\<exists>out. P (log @ ListAccessPointsCommand accountId bucketName # deletions accountId aps)
                  (DeleteBucketCommand bucketName) = Resolves out)
      \<longrightarrow> deleteBucketWithAccessPoints P bucketName accountId log =
            (Returns \<lparr>success = True,
                      message = (if aps = [] then ''Bucket deleted successfully''
                                 else ''Bucket deleted successfully after removing ''
                                      @ showNat (length aps) @ '' access point(s)'')\<rparr>,
             log @ ListAccessPointsCommand accountId bucketName # deletions accountId aps
                 @ [DeleteBucketCommand bucketName]))
     \<and> (\<forall>i e. i < length aps
           \<and> acknowledged P (log @ [ListAccessPointsCommand accountId bucketName]) accountId aps i
           \<and> P (log @ ListAccessPointsCommand accountId bucketName # deletions accountId (take i aps))
                (DeleteAccessPointCommand accountId (Name (aps ! i))) = Rejects e
         \<longrightarrow> deleteBucketWithAccessPoints P bucketName accountId log =
              (Throws (Error (''Failed to delete bucket with access points: ''
                              @ ''Failed to delete access point '' @ Name (aps ! i) @ '': ''
                              @ error_message e)),
               log @ ListAccessPointsCommand accountId bucketName
                   # deletions accountId (take (Suc i) aps)))"
proof (intro conjI allI impI)
  have la: "listAccessPoints P bucketName accountId log =
      (Returns aps, log @ [ListAccessPointsCommand accountId bucketName])"
    using assms by (rule listAccessPoints_Resolves)
  {
    assume h: "acknowledged P (log @ [ListAccessPointsCommand accountId bucketName]) accountId aps (length aps)
      \<and> (\<exists>out. P (log @ ListAccessPointsCommand accountId bucketName # deletions accountId aps)
                  (DeleteBucketCommand bucketName) = Resolves out)"
    then obtain out where
      d: "P (log @ ListAccessPointsCommand accountId bucketName # deletions accountId aps)
            (DeleteBucketCommand bucketName) = Resolves out"
      by blast
    from h have loop:
      "for_of aps (\<lambda>accessPoint. deleteAccessPoint P (Name accessPoint) accountId)
         (log @ [ListAccessPointsCommand accountId bucketName]) =
       (Returns (), (log @ [ListAccessPointsCommand accountId bucketName]) @ deletions accountId aps)"
      by (intro for_of_acknowledged) simp
    show "deleteBucketWithAccessPoints P bucketName accountId log =
            (Returns \<lparr>success = True,
                      message = (if aps = [] then ''Bucket deleted successfully''
                                 else ''Bucket deleted successfully after removing ''
                                      @ showNat (length aps) @ '' access point(s)'')\<rparr>,
             log @ ListAccessPointsCommand accountId bucketName # deletions accountId aps
                 @ [DeleteBucketCommand bucketName])"
    proof (cases "aps = []")
      case True
      with d show ?thesis
        unfolding deleteBucketWithAccessPoints_def
        by (simp add: la await_def try_catch_def return_def send_def deletions_def)
    next
      case False
      with d loop show ?thesis
        unfolding deleteBucketWithAccessPoints_def
        by (simp add: la await_def try_catch_def return_def send_def)
    qed
  }
  fix i e
  assume h: "i < length aps
           \<and> acknowledged P (log @ [ListAccessPointsCommand accountId bucketName]) accountId aps i
           \<and> P (log @ ListAccessPointsCommand accountId bucketName # deletions accountId (take i aps))
                (DeleteAccessPointCommand accountId (Name (aps ! i))) = Rejects e"
  then have ne: "aps \<noteq> []" by auto
  from h have loop:
    "for_of aps (\<lambda>accessPoint. deleteAccessPoint P (Name accessPoint) accountId)
       (log @ [ListAccessPointsCommand accountId bucketName]) =
     (Throws (Error (''Failed to delete access point '' @ Name (aps ! i) @ '': ''
                     @ error_message e)),
      (log @ [ListAccessPointsCommand accountId bucketName])
        @ deletions accountId (take (Suc i) aps))"
    by (intro for_of_rejected) simp_all
  from ne loop show "deleteBucketWithAccessPoints P bucketName accountId log =
              (Throws (Error (''Failed to delete bucket with access points: ''
                              @ ''Failed to delete access point '' @ Name (aps ! i) @ '': ''
                              @ error_message e)),
               log @ ListAccessPointsCommand accountId bucketName
                   # deletions accountId (take (Suc i) aps))"
    unfolding deleteBucketWithAccessPoints_def
    by (simp add: la await_def try_catch_def throw_def Error_def)
qed

theorem forced_delete_fail_stop_witness:
  "deleteBucketWithAccessPoints forcedProvider ''demo2'' ''123456789012'' [] =
     (Returns \<lparr>success = True,
               message = ''Bucket deleted successfully after removing 2 access point(s)''\<rparr>,
      [ListAccessPointsCommand ''123456789012'' ''demo2'',
       DeleteAccessPointCommand ''123456789012'' ''ap1'',
       DeleteAccessPointCommand ''123456789012'' ''ap2'',
       DeleteBucketCommand ''demo2''])
   \<and> deleteBucketWithAccessPoints failingProvider ''demo2'' ''123456789012'' [] =
     (Throws (Error ''Failed to delete bucket with access points: Failed to delete access point ap2: Service Unavailable''),
      [ListAccessPointsCommand ''123456789012'' ''demo2'',
       DeleteAccessPointCommand ''123456789012'' ''ap1'',
       DeleteAccessPointCommand ''123456789012'' ''ap2''])"
proof -
  let ?list = "ListAccessPointsCommand ''123456789012'' ''demo2''"
  let ?listing = "emptyResponse\<lparr>AccessPointList := Some demo2AccessPoints\<rparr>"
  have l1: "forcedProvider [] ?list = Resolves ?listing"
    by (simp add: forcedProvider_def scripted_def)
  have l2: "failingProvider [] ?list = Resolves ?listing"
    by (simp add: failingProvider_def scripted_def)
  have aps: "AccessPointList ?listing = Some demo2AccessPoints"
    by simp
  have h1: "acknowledged forcedProvider ([] @ [?list]) ''123456789012'' demo2AccessPoints
              (length demo2AccessPoints)
            \<and> (\<exists>out. forcedProvider ([] @ ?list # deletions ''123456789012'' demo2AccessPoints)
                  (DeleteBucketCommand ''demo2'') = Resolves out)"
    by (simp add: acknowledged_def less_Suc_eq forcedProvider_def scripted_def deletions_def
          demo2AccessPoints_def)
  have h2: "1 < length demo2AccessPoints
            \<and> acknowledged failingProvider ([] @ [?list]) ''123456789012'' demo2AccessPoints 1
            \<and> failingProvider ([] @ ?list # deletions ''123456789012'' (take 1 demo2AccessPoints))
                (DeleteAccessPointCommand ''123456789012'' (Name (demo2AccessPoints ! 1)))
              = Rejects (Error ''Service Unavailable'')"
    by (simp add: acknowledged_def failingProvider_def scripted_def deletions_def
          demo2AccessPoints_def)
  from forced_delete_fail_stop [where P = forcedProvider and log = "[]"
      and accountId = "''123456789012''" and bucketName = "''demo2''", OF l1 aps] h1
  have a: "deleteBucketWithAccessPoints forcedProvider ''demo2'' ''123456789012'' [] =
            (Returns \<lparr>success = True,
                      message = (if demo2AccessPoints = [] then ''Bucket deleted successfully''
                                 else ''Bucket deleted successfully after removing ''
                                      @ showNat (length demo2AccessPoints) @ '' access point(s)'')\<rparr>,
             [] @ ?list # deletions ''123456789012'' demo2AccessPoints
                 @ [DeleteBucketCommand ''demo2''])"
    by blast
  from forced_delete_fail_stop [where P = failingProvider and log = "[]"
      and accountId = "''123456789012''" and bucketName = "''demo2''", OF l2 aps] h2
  have b: "deleteBucketWithAccessPoints failingProvider ''demo2'' ''123456789012'' [] =
              (Throws (Error (''Failed to delete bucket with access points: ''
                              @ ''Failed to delete access point '' @ Name (demo2AccessPoints ! 1) @ '': ''
                              @ error_message (Error ''Service Unavailable''))),
               [] @ ?list # deletions ''123456789012'' (take (Suc 1) demo2AccessPoints))"
    by blast
  from a b show ?thesis
    by (simp add: demo2AccessPoints_def deletions_def digitChar_def Error_def)
qed

text \<open>
  C1 as the specification states it (the failure message states how many dependents
  were cleared) fails: with \<open>ap1\<close> cleared and \<open>ap2\<close> failing, the message does not
  contain the count 1.
\<close>

theorem forced_delete_failure_count_counterexample:
  "deleteBucketWithAccessPoints failingProvider ''demo2'' ''123456789012'' [] =
     (Throws (Error ''Failed to delete bucket with access points: Failed to delete access point ap2: Service Unavailable''),
      [ListAccessPointsCommand ''123456789012'' ''demo2'',
       DeleteAccessPointCommand ''123456789012'' ''ap1'',
       DeleteAccessPointCommand ''123456789012'' ''ap2''])
   \<and> \<not> str_includes ''Failed to delete bucket with access points: Failed to delete access point ap2: Service Unavailable'' (showNat 1)"
  by (simp add: deleteBucketWithAccessPoints_def failingProvider_def demo2AccessPoints_def
        run_eval str_includes_def sublist_code prefix_code)

text \<open>
  C8, as the code has it. When forced delete returns, its message states the number
  of access points listed when there is at least one (with two of them it reads
  "2 access point(s)"), and is the plain "Bucket deleted successfully" when none was
  listed.
\<close>

theorem forced_delete_success_message:
  assumes "fst (listAccessPoints P bucketName accountId log) = Returns accessPoints"
    and "fst (deleteBucketWithAccessPoints P bucketName accountId log) = Returns result"
  shows "message result =
           (if length accessPoints > 0 then
              ''Bucket deleted successfully after removing '' @ showNat (length accessPoints)
              @ '' access point(s)''
            else ''Bucket deleted successfully'')
         \<and> (length accessPoints = 2 \<longrightarrow>
              message result = ''Bucket deleted successfully after removing 2 access point(s)'')"
proof -
  from assms(2) [unfolded deleteBucketWithAccessPoints_def]
  have "fst (await (listAccessPoints P bucketName accountId) (\<lambda>accessPoints.
        await (if length accessPoints > 0 then
                 for_of accessPoints (\<lambda>accessPoint.
                   deleteAccessPoint P (Name accessPoint) accountId)
               else return ()) (\<lambda>_.
        await (send P (DeleteBucketCommand bucketName)) (\<lambda>_.
        return \<lparr>success = True,
                message = (if length accessPoints > 0 then
                             ''Bucket deleted successfully after removing ''
                             @ showNat (length accessPoints) @ '' access point(s)''
                           else ''Bucket deleted successfully'')\<rparr>))) log) = Returns result"
    by (rule try_catch_rethrow_Returns)
  then obtain aps l1 where la: "listAccessPoints P bucketName accountId log = (Returns aps, l1)"
    and r1: "fst (await (if length aps > 0 then
                 for_of aps (\<lambda>accessPoint.
                   deleteAccessPoint P (Name accessPoint) accountId)
               else return ()) (\<lambda>_.
        await (send P (DeleteBucketCommand bucketName)) (\<lambda>_.
        return \<lparr>success = True,
                message = (if length aps > 0 then
                             ''Bucket deleted successfully after removing ''
                             @ showNat (length aps) @ '' access point(s)''
                           else ''Bucket deleted successfully'')\<rparr>)) l1) = Returns result"
    by (blast dest: await_Returns)
  from la assms(1) have aps: "aps = accessPoints" by simp
  from r1 obtain u l2 where
    r2: "fst (await (send P (DeleteBucketCommand bucketName)) (\<lambda>_.
        return \<lparr>success = True,
                message = (if length aps > 0 then
                             ''Bucket deleted successfully after removing ''
                             @ showNat (length aps) @ '' access point(s)''
                           else ''Bucket deleted successfully'')\<rparr>) l2) = Returns result"
    by (blast dest: await_Returns)
  then obtain out l3 where
    "fst (return \<lparr>success = True,
                message = (if length aps > 0 then
                             ''Bucket deleted successfully after removing ''
                             @ showNat (length aps) @ '' access point(s)''
                           else ''Bucket deleted successfully'')\<rparr> l3) = Returns result"
    by (blast dest: await_Returns)
  then have "result = \<lparr>success = True,
                message = (if length aps > 0 then
                             ''Bucket deleted successfully after removing ''
                             @ showNat (length aps) @ '' access point(s)''
                           else ''Bucket deleted successfully'')\<rparr>"
    by (simp add: return_def)
  with aps have m: "message result =
           (if length accessPoints > 0 then
              ''Bucket deleted successfully after removing '' @ showNat (length accessPoints)
              @ '' access point(s)''
            else ''Bucket deleted successfully'')"
    by simp
  have "showNat 2 = ''2''"
    by (simp add: digitChar_def)
  with m show ?thesis by simp
qed

theorem forced_delete_success_message_witness:
  "fst (listAccessPoints forcedProvider ''demo2'' ''123456789012'' []) = Returns demo2AccessPoints
   \<and> fst (deleteBucketWithAccessPoints forcedProvider ''demo2'' ''123456789012'' []) =
       Returns \<lparr>success = True,
                message = ''Bucket deleted successfully after removing 2 access point(s)''\<rparr>
   \<and> message \<lparr>success = True,
              message = ''Bucket deleted successfully after removing 2 access point(s)''\<rparr> =
       (if length demo2AccessPoints > 0 then
          ''Bucket deleted successfully after removing '' @ showNat (length demo2AccessPoints)
          @ '' access point(s)''
        else ''Bucket deleted successfully'')"
proof -
  have l: "fst (listAccessPoints forcedProvider ''demo2'' ''123456789012'' []) =
             Returns demo2AccessPoints"
    by (simp add: forcedProvider_def run_eval)
  have d: "fst (deleteBucketWithAccessPoints forcedProvider ''demo2'' ''123456789012'' []) =
             Returns \<lparr>success = True,
                      message = ''Bucket deleted successfully after removing 2 access point(s)''\<rparr>"
    by (simp add: deleteBucketWithAccessPoints_def forcedProvider_def demo2AccessPoints_def
          run_eval)
  from forced_delete_success_message [OF l d]
  have "message \<lparr>success = True,
              message = ''Bucket deleted successfully after removing 2 access point(s)''\<rparr> =
       (if length demo2AccessPoints > 0 then
          ''Bucket deleted successfully after removing '' @ showNat (length demo2AccessPoints)
          @ '' access point(s)''
        else ''Bucket deleted successfully'')"
    by (rule conjunct1)
  with l d show ?thesis
    by (intro conjI)
qed

text \<open>
  C8 as the specification states it (the message states 0 when no dependent existed)
  fails: with no access point listed the message is "Bucket deleted successfully",
  which holds no count.
\<close>

theorem forced_delete_zero_count_counterexample:
  "deleteBucketWithAccessPoints bareProvider ''demo'' ''123456789012'' [] =
     (Returns \<lparr>success = True, message = ''Bucket deleted successfully''\<rparr>,
      [ListAccessPointsCommand ''123456789012'' ''demo'', DeleteBucketCommand ''demo''])
   \<and> \<not> str_includes ''Bucket deleted successfully'' (showNat 0)"
  by (simp add: deleteBucketWithAccessPoints_def bareProvider_def run_eval
        str_includes_def sublist_code prefix_code)

text \<open>
  C2. Plain delete of the empty bucket \<open>demo2\<close> with the access points \<open>ap1\<close> and
  \<open>ap2\<close>, account identifier configured: nothing is deleted and the message lists the
  names, but the error that leaves \<open>deleteBucket\<close> is the one built by its outermost
  handler, without \<open>code\<close> and without \<open>accessPoints\<close>; the route answers 500 with
  the message alone.
\<close>

theorem plain_delete_blocked_loses_payload:
  "deleteBucket blockedProvider (Some ''123456789012'') ''demo2'' [] =
     (Throws \<lparr>error_name = ''Error'',
              error_message = ''Failed to delete bucket: Bucket has 2 access point(s) attached: ap1, ap2. These must be deleted before the bucket can be removed.'',
              error_code = None, error_accessPoints = None\<rparr>,
      [ListObjectsV2Command ''demo2'' None None None, DeleteBucketCommand ''demo2'',
       ListAccessPointsCommand ''123456789012'' ''demo2''])
   \<and> deleteBucketRoute blockedProvider (Some ''123456789012'') ''demo2'' [] =
     (Returns \<lparr>status = 500, body = Outcome False
        ''Failed to delete bucket: Bucket has 2 access point(s) attached: ap1, ap2. These must be deleted before the bucket can be removed.''\<rparr>,
      [ListObjectsV2Command ''demo2'' None None None, DeleteBucketCommand ''demo2'',
       ListAccessPointsCommand ''123456789012'' ''demo2''])"
proof -
  have d: "deleteBucket blockedProvider (Some ''123456789012'') ''demo2'' [] =
     (Throws \<lparr>error_name = ''Error'',
              error_message = ''Failed to delete bucket: Bucket has 2 access point(s) attached: ap1, ap2. These must be deleted before the bucket can be removed.'',
              error_code = None, error_accessPoints = None\<rparr>,
      [ListObjectsV2Command ''demo2'' None None None, DeleteBucketCommand ''demo2'',
       ListAccessPointsCommand ''123456789012'' ''demo2''])"
    by (simp add: deleteBucket_def blockedProvider_def demo2AccessPoints_def run_eval
          str_includes_def sublist_code prefix_code)
  have s: "bucketNameSchema ''demo2'' = None"
    by (simp add: bucketNameSchema_def str_eval)
  from d s show ?thesis
    by (simp add: deleteBucketRoute_def try_catch_def await_def return_def
          str_includes_def sublist_code prefix_code)
qed

lemma deleteBucket_throws_plain_Error:
  "fst (deleteBucket P AWS_ACCOUNT_ID bucketName log) = Throws e \<Longrightarrow>
   error_code e = None \<and> error_accessPoints e = None"
  unfolding deleteBucket_def
    try_catch_def [of _ "\<lambda>error. throw (Error (''Failed to delete bucket: '' @ error_message error))"]
  by (auto simp: throw_def Error_def split: prod.splits completion.splits)

section \<open>Properties of the size aggregation\<close>

lemma listFiles_Resolves:
  "P log (ListObjectsV2Command bucketName (Some prefix') (Some maxKeys) None) = Resolves r \<Longrightarrow>
   \<exists>result. listFiles P bucketName prefix' maxKeys log =
     (Returns result, log @ [ListObjectsV2Command bucketName (Some prefix') (Some maxKeys) None])
     \<and> nextContinuationToken result = NextContinuationToken r
     \<and> map file_size (files result) = map Size (case Contents r of Some cs \<Rightarrow> cs | None \<Rightarrow> [])
     \<and> totalCount result = KeyCount r"
  by (simp add: listFiles_def action_defs comp_def)

lemma listFiles_Rejects:
  "P log (ListObjectsV2Command bucketName (Some prefix') (Some maxKeys) None) = Rejects e \<Longrightarrow>
   listFiles P bucketName prefix' maxKeys log =
     (Throws (Error (''Failed to list files: '' @ error_message e)),
      log @ [ListObjectsV2Command bucketName (Some prefix') (Some maxKeys) None])"
  by (simp add: listFiles_def action_defs)

lemma calculateBucketSize_loop_never_returns:
  assumes "calculateBucketSize_loop P bucketName totalSize log = Some y"
    and "alwaysTruncated P"
  shows False
proof -
  have "(\<lambda>x y. \<not> alwaysTruncated (fst (fst (fst x)))) (((P, bucketName), totalSize), log) y"
  proof (rule calculateBucketSize_loop.raw_induct
      [where Pa = "\<lambda>x y. \<not> alwaysTruncated (fst (fst (fst x)))", OF _ assms(1)])
    fix loop P bucketName totalSize log y
    assume IH: "\<And>P bucketName totalSize log y.
        loop P bucketName totalSize log = Some y \<Longrightarrow>
        \<not> alwaysTruncated (fst (fst (fst (((P, bucketName), totalSize), log))))"
      and body: "(case listFiles P bucketName [] 1000 log of
        (Returns result, log') \<Rightarrow>
          if truthy (nextContinuationToken result)
          then loop P bucketName
                (totalSize + foldl (\<lambda>sum file. sum + file_size file) 0 (files result)) log'
          else Some (Returns (totalSize
                 + foldl (\<lambda>sum file. sum + file_size file) 0 (files result)), log')
        | (Throws error, log') \<Rightarrow> Some (Throws error, log')) = Some y"
    show "\<not> alwaysTruncated (fst (fst (fst (((P, bucketName), totalSize), log))))"
    proof
      assume "alwaysTruncated (fst (fst (fst (((P, bucketName), totalSize), log))))"
      then have always: "alwaysTruncated P" by simp
      then obtain r where
        r: "P log (ListObjectsV2Command bucketName (Some []) (Some 1000) None) = Resolves r"
        and t: "truthy (NextContinuationToken r)"
        unfolding alwaysTruncated_def by blast
      from listFiles_Resolves [where P = P and log = log, OF r] obtain result where
        l: "listFiles P bucketName [] 1000 log =
              (Returns result, log @ [ListObjectsV2Command bucketName (Some []) (Some 1000) None])"
        and n: "nextContinuationToken result = NextContinuationToken r"
        by blast
      from body l n t have
        "loop P bucketName (totalSize + foldl (\<lambda>sum file. sum + file_size file) 0 (files result))
           (log @ [ListObjectsV2Command bucketName (Some []) (Some 1000) None]) = Some y"
        by simp
      from IH [OF this] always show False by simp
    qed
  qed
  with assms(2) show False
    by simp
qed

lemma calculateBucketSize_diverges:
  assumes "alwaysTruncated P"
  shows "calculateBucketSize P bucketName log = None"
proof -
  have "calculateBucketSize_loop P bucketName 0 log = None"
  proof (cases "calculateBucketSize_loop P bucketName 0 log")
    case None
    then show ?thesis .
  next
    case (Some y)
    from calculateBucketSize_loop_never_returns [OF Some assms] show ?thesis ..
  qed
  then show ?thesis
    by (simp add: calculateBucketSize_def)
qed

text \<open>
  C4. On a bucket with more objects than one page holds, the size helper never
  returns: \<open>listFiles\<close> sends no continuation token, so the provider answers every
  request with the same truncated first page and the loop goes on.
\<close>

theorem size_aggregation_never_returns:
  "calculateBucketSize largeBucketProvider ''big'' [] = None"
proof (rule calculateBucketSize_diverges)
  have "NextContinuationToken firstPage = Some ''token-1000''"
    unfolding firstPage_def by (simp only: response.select_convs)
  then show "alwaysTruncated largeBucketProvider"
    by (simp add: alwaysTruncated_def largeBucketProvider_def scripted_def truthy_def)
qed

text \<open>
  What the helper does do: the request after a truncated page is the request before
  it, token-free; a single page gives the sum of its sizes; a failing page gives 0.
\<close>

lemma calculateBucketSize_repeats_request:
  "calculateBucketSize (scripted [Resolves truncatedPage, Resolves lastPage] (Resolves emptyResponse)) ''big'' [] =
     Some (Returns 14,
           [ListObjectsV2Command ''big'' (Some []) (Some 1000) None,
            ListObjectsV2Command ''big'' (Some []) (Some 1000) None])"
  unfolding calculateBucketSize_def
  by (subst calculateBucketSize_loop.simps, simp add: listFiles_def run_eval truncatedPage_def lastPage_def demoItems_def,
      subst calculateBucketSize_loop.simps, simp add: listFiles_def run_eval truncatedPage_def lastPage_def demoItems_def)

lemma calculateBucketSize_single_page:
  assumes "P log (ListObjectsV2Command bucketName (Some []) (Some 1000) None) = Resolves r"
    and "\<not> truthy (NextContinuationToken r)"
  shows "calculateBucketSize P bucketName log =
           Some (Returns (sum_list (map Size (case Contents r of Some cs \<Rightarrow> cs | None \<Rightarrow> []))),
                 log @ [ListObjectsV2Command bucketName (Some []) (Some 1000) None])"
proof -
  have f: "foldl (\<lambda>sum file. sum + file_size file) a fs = a + sum_list (map file_size fs)" for a fs
    by (induction fs arbitrary: a) simp_all
  from listFiles_Resolves [where P = P and log = log, OF assms(1)] obtain result where
    l: "listFiles P bucketName [] 1000 log =
          (Returns result, log @ [ListObjectsV2Command bucketName (Some []) (Some 1000) None])"
    and n: "nextContinuationToken result = NextContinuationToken r"
    and s: "map file_size (files result) = map Size (case Contents r of Some cs \<Rightarrow> cs | None \<Rightarrow> [])"
    by blast
  from l n s assms(2) show ?thesis
    unfolding calculateBucketSize_def
    by (subst calculateBucketSize_loop.simps) (simp add: f)
qed

lemma calculateBucketSize_page_fails:
  assumes "P log (ListObjectsV2Command bucketName (Some []) (Some 1000) None) = Rejects e"
  shows "calculateBucketSize P bucketName log =
           Some (Returns 0, log @ [ListObjectsV2Command bucketName (Some []) (Some 1000) None])"
  unfolding calculateBucketSize_def
  by (subst calculateBucketSize_loop.simps) (simp add: listFiles_Rejects [where P = P and log = log, OF assms])


section \<open>Properties of the request boundary\<close>

lemma bucketNameSchema_None_iff:
  "bucketNameSchema name = None \<longleftrightarrow> 3 \<le> jsLength name \<and> jsLength name \<le> 63 \<and> bucketNamePattern name"
  by (auto simp: bucketNameSchema_def jsLength_def)

lemma deleteBucketRoute_log:
  "bucketNameSchema name = None \<Longrightarrow>
   snd (deleteBucketRoute P AWS_ACCOUNT_ID name log) = snd (deleteBucket P AWS_ACCOUNT_ID name log)"
  by (simp add: deleteBucketRoute_def try_catch_def await_def return_def
        split: prod.splits completion.splits)

lemma forceDeleteBucketRoute_log:
  "bucketNameSchema name = None \<Longrightarrow> truthy AWS_ACCOUNT_ID \<Longrightarrow>
   snd (forceDeleteBucketRoute P AWS_ACCOUNT_ID name log) =
     snd (deleteBucketWithAccessPoints P name (the AWS_ACCOUNT_ID) log)"
  by (simp add: forceDeleteBucketRoute_def try_catch_def await_def return_def
        split: prod.splits completion.splits)

lemma for_of_log:
  assumes "\<And>x l. \<exists>rest. snd (step x l) = l @ rest"
  shows "\<exists>rest. snd (for_of xs step log) = log @ rest"
proof (induction xs arbitrary: log)
  case Nil
  show ?case by simp
next
  case (Cons x xs)
  from assms [of x log] obtain r1 where b: "snd (step x log) = log @ r1" ..
  from Cons.IH [of "log @ r1"] obtain r2 where "snd (for_of xs step (log @ r1)) = (log @ r1) @ r2" ..
  with b show ?case
    by (cases "step x log") (auto split: completion.splits)
qed

lemma deleteAccessPoint_log:
  "snd (deleteAccessPoint P n accountId log) = log @ [DeleteAccessPointCommand accountId n]"
  by (simp add: deleteAccessPoint_def action_defs split: reply.splits)

lemma send_log: "snd (send P c log) = log @ [c]"
  by (simp add: send_def split: reply.splits)

lemma deleteBucketWithAccessPoints_log:
  "\<exists>rest. snd (deleteBucketWithAccessPoints P bucketName accountId log) =
            log @ ListAccessPointsCommand accountId bucketName # rest"
proof -
  let ?l1 = "log @ [ListAccessPointsCommand accountId bucketName]"
  obtain aps where la: "listAccessPoints P bucketName accountId log = (Returns aps, ?l1)"
    by (cases "P log (ListAccessPointsCommand accountId bucketName)")
       (auto simp: listAccessPoints_def action_defs)
  let ?loop = "if 0 < length aps
               then for_of aps (\<lambda>accessPoint. deleteAccessPoint P (Name accessPoint) accountId)
               else return ()"
  have "\<exists>rest. snd (?loop ?l1) = ?l1 @ rest"
    using for_of_log [of "\<lambda>accessPoint. deleteAccessPoint P (Name accessPoint) accountId" aps ?l1]
    by (simp add: deleteAccessPoint_log return_def)
  then obtain r1 rest1 where loop: "?loop ?l1 = (r1, ?l1 @ rest1)"
    by (cases "?loop ?l1") auto
  obtain r2 where del: "send P (DeleteBucketCommand bucketName) (?l1 @ rest1) =
      (r2, ?l1 @ rest1 @ [DeleteBucketCommand bucketName])"
    using send_log [of P "DeleteBucketCommand bucketName" "?l1 @ rest1"]
    by (cases "send P (DeleteBucketCommand bucketName) (?l1 @ rest1)") auto
  show ?thesis
  proof (cases "aps = []")
    case True
    with loop have "r1 = Returns ()" and "rest1 = []"
      by (simp_all add: return_def)
    with True del show ?thesis
      unfolding deleteBucketWithAccessPoints_def
      by (cases r2) (simp_all add: try_catch_def await_def return_def throw_def la)
  next
    case False
    with loop have f:
      "for_of aps (\<lambda>accessPoint. deleteAccessPoint P (Name accessPoint) accountId) ?l1 =
         (r1, ?l1 @ rest1)"
      by simp
    from False del show ?thesis
      unfolding deleteBucketWithAccessPoints_def
      by (cases r1; cases r2) (simp_all add: try_catch_def await_def return_def throw_def la f)
  qed
qed

lemma calculateBucketSize_loop_log:
  assumes "calculateBucketSize_loop P bucketName totalSize log = Some y"
  shows "\<exists>rest. snd y = log @ rest"
proof -
  have "(\<lambda>x y. \<exists>rest. snd y = snd x @ rest) (((P, bucketName), totalSize), log) y"
  proof (rule calculateBucketSize_loop.raw_induct
      [where Pa = "\<lambda>x y. \<exists>rest. snd y = snd x @ rest", OF _ assms])
    fix loop P bucketName totalSize log y
    assume IH: "\<And>P bucketName totalSize log y.
        loop P bucketName totalSize log = Some y \<Longrightarrow>
        \<exists>rest. snd y = snd (((P, bucketName), totalSize), log) @ rest"
      and step: "(case listFiles P bucketName [] 1000 log of
        (Returns result, log') \<Rightarrow>
          if truthy (nextContinuationToken result)
          then loop P bucketName
                (totalSize + foldl (\<lambda>sum file. sum + file_size file) 0 (files result)) log'
          else Some (Returns (totalSize
                 + foldl (\<lambda>sum file. sum + file_size file) 0 (files result)), log')
        | (Throws error, log') \<Rightarrow> Some (Throws error, log')) = Some y"
    let ?c = "ListObjectsV2Command bucketName (Some []) (Some 1000) None"
    obtain r where l: "listFiles P bucketName [] 1000 log = (r, log @ [?c])"
      by (cases "P log ?c") (auto simp: listFiles_def action_defs)
    show "\<exists>rest. snd y = snd (((P, bucketName), totalSize), log) @ rest"
    proof (cases r)
      case (Throws e)
      with step l show ?thesis by auto
    next
      case (Returns result)
      show ?thesis
      proof (cases "truthy (nextContinuationToken result)")
        case False
        with step l Returns show ?thesis by auto
      next
        case True
        with step l Returns have
          "loop P bucketName
             (totalSize + foldl (\<lambda>sum file. sum + file_size file) 0 (files result))
             (log @ [?c]) = Some y"
          by simp
        from IH [OF this] show ?thesis by auto
      qed
    qed
  qed
  then show ?thesis by simp
qed

lemma getBucketRoute_log:
  assumes "bucketNameSchema name = None" and "getBucketRoute P name log = Some out"
  shows "\<exists>rest. snd out = log @ ListObjectsV2Command name (Some []) (Some 1) None # rest"
proof -
  let ?c = "ListObjectsV2Command name (Some []) (Some 1) None"
  obtain r where l: "listFiles P name [] 1 log = (r, log @ [?c])"
    by (cases "P log ?c") (auto simp: listFiles_def action_defs)
  show ?thesis
  proof (cases r)
    case (Throws e)
    with assms l show ?thesis
      by (auto simp: getBucketRoute_def Let_def)
  next
    case (Returns filesResult)
    show ?thesis
    proof (cases "calculateBucketSize_loop P name 0 (log @ [?c])")
      case None
      with assms l Returns show ?thesis
        by (simp add: getBucketRoute_def Let_def calculateBucketSize_def)
    next
      case (Some y)
      from calculateBucketSize_loop_log [OF Some] obtain rest where "snd y = (log @ [?c]) @ rest" ..
      with assms l Returns Some show ?thesis
        by (cases y; cases "fst y")
           (auto simp: getBucketRoute_def Let_def calculateBucketSize_def)
    qed
  qed
qed

lemma validateBucketName_Throws_Error:
  "validateBucketName s = Throws e \<Longrightarrow> \<exists>reason. e = Error reason"
  using verdict_validateBucketName [of s] by (auto simp: verdict_def)

lemma createBucket_rejected:
  assumes "validateBucketName bucketName = Throws e"
  shows "createBucket P bucketName region log =
           (Throws (Error (''Failed to create bucket: '' @ error_message e)), log)"
proof -
  from validateBucketName_Throws_Error [OF assms] obtain reason where e: "e = Error reason" ..
  have n: "error_name e \<noteq> ''BucketAlreadyExists''" "error_name e \<noteq> ''BucketAlreadyOwnedByYou''"
    by (simp_all add: e Error_def)
  from assms n show ?thesis
    by (simp add: createBucket_def try_catch_def await_def throw_def)
qed

lemma deleteFileRoute_log:
  assumes "fileKeySchema bucket = None" and "fileKeySchema key = None"
    and "decodeURIComponent key = Returns decodedKey"
  shows "snd (deleteFileRoute P bucket key log) = log @ [DeleteObjectCommand bucket decodedKey]"
  using assms
  by (simp add: deleteFileRoute_def deleteFile_def action_defs split: reply.splits)

lemma deleteFileRoute_Resolves:
  assumes "fileKeySchema bucket = None" and "fileKeySchema key = None"
    and "decodeURIComponent key = Returns decodedKey"
    and "P log (DeleteObjectCommand bucket decodedKey) = Resolves out"
  shows "deleteFileRoute P bucket key log =
           (Returns \<lparr>status = 200, body = Outcome True ''File deleted successfully''\<rparr>,
            log @ [DeleteObjectCommand bucket decodedKey])"
  using assms
  by (simp add: deleteFileRoute_def deleteFile_def action_defs)


lemma decode_example: "decodeURIComponent ''a%3Cb'' = Returns ''a<b''"
  by code_simp

lemma deleteBucketRoute_refused:
  "bucketNameSchema name \<noteq> None \<Longrightarrow>
   deleteBucketRoute P AWS_ACCOUNT_ID name log =
     (Returns \<lparr>status = 400, body = Outcome False ''Invalid bucket name''\<rparr>, log)"
  by (simp add: deleteBucketRoute_def try_catch_def return_def)

lemma forceDeleteBucketRoute_unconfigured:
  "\<not> truthy AWS_ACCOUNT_ID \<Longrightarrow>
   forceDeleteBucketRoute P AWS_ACCOUNT_ID name log =
     (Returns \<lparr>status = 400, body = Outcome False
        ''AWS_ACCOUNT_ID environment variable is required for access point management''\<rparr>, log)"
  by (simp add: forceDeleteBucketRoute_def try_catch_def return_def)

lemma forceDeleteBucketRoute_refused:
  "truthy AWS_ACCOUNT_ID \<Longrightarrow> bucketNameSchema name \<noteq> None \<Longrightarrow>
   forceDeleteBucketRoute P AWS_ACCOUNT_ID name log =
     (Returns \<lparr>status = 400, body = Outcome False ''Invalid bucket name''\<rparr>, log)"
  by (simp add: forceDeleteBucketRoute_def try_catch_def return_def)

lemma getBucketRoute_refused:
  "bucketNameSchema name \<noteq> None \<Longrightarrow>
   getBucketRoute P name log =
     Some (Returns \<lparr>status = 400, body = Outcome False ''Invalid bucket name''\<rparr>, log)"
  by (simp add: getBucketRoute_def)

lemma getBucketRoute_None_iff:
  "getBucketRoute P name log = None \<longleftrightarrow>
     bucketNameSchema name = None
     \<and> (\<exists>r. P log (ListObjectsV2Command name (Some []) (Some 1) None) = Resolves r)
     \<and> calculateBucketSize P name
          (log @ [ListObjectsV2Command name (Some []) (Some 1) None]) = None"
proof (cases "bucketNameSchema name = None")
  case False
  then show ?thesis by (simp add: getBucketRoute_def)
next
  case True
  let ?c = "ListObjectsV2Command name (Some []) (Some 1) None"
  show ?thesis
  proof (cases "P log ?c")
    case (Rejects e)
    with True show ?thesis
      by (simp add: getBucketRoute_def Let_def listFiles_Rejects [where P = P and log = log]
            del: One_nat_def)
  next
    case (Resolves r)
    from listFiles_Resolves [where P = P and log = log, OF Resolves] obtain result where
      l: "listFiles P name [] 1 log = (Returns result, log @ [?c])"
      by blast
    from True Resolves l show ?thesis
      by (cases "calculateBucketSize P name (log @ [?c])")
         (auto simp: getBucketRoute_def Let_def simp del: One_nat_def
               split: prod.splits completion.splits)
  qed
qed

lemma getBucketRoute_listing_rejected:
  assumes "bucketNameSchema name = None"
    and "P log (ListObjectsV2Command name (Some []) (Some 1) None) = Rejects e"
  shows "\<exists>reply. getBucketRoute P name log =
           Some (Returns reply, log @ [ListObjectsV2Command name (Some []) (Some 1) None])
         \<and> (status reply = 404 \<or> status reply = 500)"
  using assms
  by (simp add: getBucketRoute_def Let_def listFiles_Rejects [where P = P and log = log]
        del: One_nat_def)

lemma getBucketRoute_one_page:
  assumes "bucketNameSchema name = None"
    and "P log (ListObjectsV2Command name (Some []) (Some 1) None) = Resolves r"
    and "P (log @ [ListObjectsV2Command name (Some []) (Some 1) None])
           (ListObjectsV2Command name (Some []) (Some 1000) None) = Resolves r'"
    and "\<not> truthy (NextContinuationToken r')"
  shows "getBucketRoute P name log =
           Some (Returns \<lparr>status = 200,
                          body = BucketDetails name (KeyCount r)
                            (sum_list (map Size (case Contents r' of Some cs \<Rightarrow> cs | None \<Rightarrow> [])))
                            (case KeyCount r of Some n \<Rightarrow> n > 0 | None \<Rightarrow> False)\<rparr>,
                 log @ [ListObjectsV2Command name (Some []) (Some 1) None,
                        ListObjectsV2Command name (Some []) (Some 1000) None])"
proof -
  let ?c = "ListObjectsV2Command name (Some []) (Some 1) None"
  from listFiles_Resolves [where P = P and log = log, OF assms(2)] obtain result where
    l: "listFiles P name [] 1 log = (Returns result, log @ [?c])"
    and t: "totalCount result = KeyCount r"
    by blast
  from calculateBucketSize_single_page [where P = P and log = "log @ [?c]", OF assms(3) assms(4)]
  have s: "calculateBucketSize P name (log @ [?c]) =
     Some (Returns (sum_list (map Size (case Contents r' of Some cs \<Rightarrow> cs | None \<Rightarrow> []))),
           (log @ [?c]) @ [ListObjectsV2Command name (Some []) (Some 1000) None])" .
  from assms(1) l t s show ?thesis
    by (simp add: getBucketRoute_def Let_def del: One_nat_def)
qed

lemma utf8_Throws: "utf8 ts = Throws e \<Longrightarrow> e = URIError"
  by (induction ts rule: utf8.induct) (auto split: completion.splits if_splits)

lemma decodeURIComponent_Throws: "decodeURIComponent s = Throws e \<Longrightarrow> e = URIError"
  by (auto simp: decodeURIComponent_def dest: utf8_Throws split: option.splits)

lemma deleteFileRoute_refused:
  assumes "decodeURIComponent key = Returns decodedKey"
    and "fileKeySchema bucket \<noteq> None \<or> fileKeySchema key \<noteq> None"
  shows "deleteFileRoute P bucket key log =
           (Returns \<lparr>status = 400, body = Outcome False ''Invalid bucket name or file key''\<rparr>,
            log)"
  using assms
  by (auto simp: deleteFileRoute_def try_catch_def await_def return_def)

lemma deleteFileRoute_malformed:
  assumes "decodeURIComponent key = Throws e"
  shows "deleteFileRoute P bucket key log =
           (Returns \<lparr>status = 500, body = Outcome False ''URI malformed''\<rparr>, log)"
proof -
  from decodeURIComponent_Throws [OF assms] have e: "e = URIError" .
  have n: "\<not> str_includes ''URI malformed'' ''not found''"
    "\<not> str_includes ''URI malformed'' ''does not exist''"
    by (simp_all add: str_includes_def sublist_code prefix_code)
  from assms e n show ?thesis
    by (simp add: deleteFileRoute_def try_catch_def await_def return_def URIError_def)
qed

text \<open>
  C9. The schema applied to the bucket name by the delete, force-delete and
  get-bucket routes accepts exactly the names of length 3 to 63 over \<open>[a-z0-9.-]\<close>.
  Each of the three routes answers a name the schema refuses with 400 and sends
  nothing (the force-delete route once the account identifier is configured; without
  it the route answers 400 before it looks at the name). For every name the schema
  accepts, the delete and force-delete routes go on to the provider with that name.
  So does the get-bucket route: it sends its capped listing first; it answers 404 or
  500 when that listing fails and 200 when the size helper reads one last page or a
  failing page; and the only runs on which it does not return are those where, after
  that listing was sent and answered, the size helper does not return. Only
  \<open>createBucket\<close> runs the validator, and it sends nothing when the validator throws.
  The name \<open>my..bucket\<close> passes the schema and is refused by the validator.
\<close>

theorem boundary_skips_dot_rules:
  "(bucketNameSchema name = None \<longleftrightarrow>
      3 \<le> jsLength name \<and> jsLength name \<le> 63 \<and> bucketNamePattern name)
   \<and> (bucketNameSchema name = None \<longrightarrow>
        (\<exists>rest. snd (deleteBucketRoute P AWS_ACCOUNT_ID name log) =
                  log @ ListObjectsV2Command name None None None # rest)
        \<and> (truthy AWS_ACCOUNT_ID \<longrightarrow>
             (\<exists>rest. snd (forceDeleteBucketRoute P AWS_ACCOUNT_ID name log) =
                       log @ ListAccessPointsCommand (the AWS_ACCOUNT_ID) name # rest))
        \<and> (\<forall>out. getBucketRoute P name log = Some out \<longrightarrow>
             (\<exists>rest. snd out = log @ ListObjectsV2Command name (Some []) (Some 1) None # rest)))
   \<and> (\<forall>e. validateBucketName name = Throws e \<longrightarrow>
         createBucket P name region log =
           (Throws (Error (''Failed to create bucket: '' @ error_message e)), log))
   \<and> bucketNameSchema ''my..bucket'' = None
   \<and> validateBucketName ''my..bucket'' =
       Throws (Error ''Bucket name cannot contain consecutive dots'')
   \<and> (bucketNameSchema name \<noteq> None \<longrightarrow>
        deleteBucketRoute P AWS_ACCOUNT_ID name log =
          (Returns \<lparr>status = 400, body = Outcome False ''Invalid bucket name''\<rparr>, log)
        \<and> (truthy AWS_ACCOUNT_ID \<longrightarrow>
             forceDeleteBucketRoute P AWS_ACCOUNT_ID name log =
               (Returns \<lparr>status = 400, body = Outcome False ''Invalid bucket name''\<rparr>, log))
        \<and> getBucketRoute P name log =
            Some (Returns \<lparr>status = 400, body = Outcome False ''Invalid bucket name''\<rparr>, log))
   \<and> (\<not> truthy AWS_ACCOUNT_ID \<longrightarrow>
        forceDeleteBucketRoute P AWS_ACCOUNT_ID name log =
          (Returns \<lparr>status = 400, body = Outcome False
             ''AWS_ACCOUNT_ID environment variable is required for access point management''\<rparr>,
           log))
   \<and> (getBucketRoute P name log = None \<longleftrightarrow>
        bucketNameSchema name = None
        \<and> (\<exists>r. P log (ListObjectsV2Command name (Some []) (Some 1) None) = Resolves r)
        \<and> calculateBucketSize P name
             (log @ [ListObjectsV2Command name (Some []) (Some 1) None]) = None)
   \<and> (\<forall>e. bucketNameSchema name = None
         \<and> P log (ListObjectsV2Command name (Some []) (Some 1) None) = Rejects e \<longrightarrow>
         (\<exists>reply. getBucketRoute P name log =
             Some (Returns reply, log @ [ListObjectsV2Command name (Some []) (Some 1) None])
           \<and> (status reply = 404 \<or> status reply = 500)))
   \<and> (\<forall>r r'. bucketNameSchema name = None
         \<and> P log (ListObjectsV2Command name (Some []) (Some 1) None) = Resolves r
         \<and> P (log @ [ListObjectsV2Command name (Some []) (Some 1) None])
              (ListObjectsV2Command name (Some []) (Some 1000) None) = Resolves r'
         \<and> \<not> truthy (NextContinuationToken r') \<longrightarrow>
         getBucketRoute P name log =
           Some (Returns \<lparr>status = 200,
                          body = BucketDetails name (KeyCount r)
                            (sum_list (map Size (case Contents r' of Some cs \<Rightarrow> cs | None \<Rightarrow> [])))
                            (case KeyCount r of Some n \<Rightarrow> n > 0 | None \<Rightarrow> False)\<rparr>,
                 log @ [ListObjectsV2Command name (Some []) (Some 1) None,
                        ListObjectsV2Command name (Some []) (Some 1000) None]))"
proof (intro conjI impI allI)
  show "bucketNameSchema name = None \<longleftrightarrow>
      3 \<le> jsLength name \<and> jsLength name \<le> 63 \<and> bucketNamePattern name"
    by (rule bucketNameSchema_None_iff)
next
  assume ok: "bucketNameSchema name = None"
  from deleteBucket_log [of P AWS_ACCOUNT_ID name log] obtain rest where
    "snd (deleteBucket P AWS_ACCOUNT_ID name log) =
       log @ ListObjectsV2Command name None None None # rest"
    by blast
  with ok show "\<exists>rest. snd (deleteBucketRoute P AWS_ACCOUNT_ID name log) =
                  log @ ListObjectsV2Command name None None None # rest"
    by (simp add: deleteBucketRoute_log)
next
  assume ok: "bucketNameSchema name = None" and acct: "truthy AWS_ACCOUNT_ID"
  then show "\<exists>rest. snd (forceDeleteBucketRoute P AWS_ACCOUNT_ID name log) =
                       log @ ListAccessPointsCommand (the AWS_ACCOUNT_ID) name # rest"
    by (simp add: forceDeleteBucketRoute_log deleteBucketWithAccessPoints_log)
next
  fix out
  assume "bucketNameSchema name = None" and "getBucketRoute P name log = Some out"
  then show "\<exists>rest. snd out = log @ ListObjectsV2Command name (Some []) (Some 1) None # rest"
    by (rule getBucketRoute_log)
next
  fix e
  assume "validateBucketName name = Throws e"
  then show "createBucket P name region log =
           (Throws (Error (''Failed to create bucket: '' @ error_message e)), log)"
    by (rule createBucket_rejected)
next
  show "bucketNameSchema ''my..bucket'' = None"
    by (simp add: bucketNameSchema_def str_eval)
next
  show "validateBucketName ''my..bucket'' =
       Throws (Error ''Bucket name cannot contain consecutive dots'')"
    by (simp add: validateBucketName_def str_eval)
next
  assume "bucketNameSchema name \<noteq> None"
  then show "deleteBucketRoute P AWS_ACCOUNT_ID name log =
          (Returns \<lparr>status = 400, body = Outcome False ''Invalid bucket name''\<rparr>, log)"
    by (rule deleteBucketRoute_refused)
next
  assume "bucketNameSchema name \<noteq> None" and "truthy AWS_ACCOUNT_ID"
  then show "forceDeleteBucketRoute P AWS_ACCOUNT_ID name log =
               (Returns \<lparr>status = 400, body = Outcome False ''Invalid bucket name''\<rparr>, log)"
    by (simp add: forceDeleteBucketRoute_refused)
next
  assume "bucketNameSchema name \<noteq> None"
  then show "getBucketRoute P name log =
            Some (Returns \<lparr>status = 400, body = Outcome False ''Invalid bucket name''\<rparr>, log)"
    by (rule getBucketRoute_refused)
next
  assume "\<not> truthy AWS_ACCOUNT_ID"
  then show "forceDeleteBucketRoute P AWS_ACCOUNT_ID name log =
          (Returns \<lparr>status = 400, body = Outcome False
             ''AWS_ACCOUNT_ID environment variable is required for access point management''\<rparr>,
           log)"
    by (rule forceDeleteBucketRoute_unconfigured)
next
  show "getBucketRoute P name log = None \<longleftrightarrow>
        bucketNameSchema name = None
        \<and> (\<exists>r. P log (ListObjectsV2Command name (Some []) (Some 1) None) = Resolves r)
        \<and> calculateBucketSize P name
             (log @ [ListObjectsV2Command name (Some []) (Some 1) None]) = None"
    by (rule getBucketRoute_None_iff)
next
  fix e
  assume "bucketNameSchema name = None
         \<and> P log (ListObjectsV2Command name (Some []) (Some 1) None) = Rejects e"
  then show "\<exists>reply. getBucketRoute P name log =
             Some (Returns reply, log @ [ListObjectsV2Command name (Some []) (Some 1) None])
           \<and> (status reply = 404 \<or> status reply = 500)"
    using getBucketRoute_listing_rejected [where P = P and log = log and name = name and e = e]
    by blast
next
  fix r r'
  assume "bucketNameSchema name = None
         \<and> P log (ListObjectsV2Command name (Some []) (Some 1) None) = Resolves r
         \<and> P (log @ [ListObjectsV2Command name (Some []) (Some 1) None])
              (ListObjectsV2Command name (Some []) (Some 1000) None) = Resolves r'
         \<and> \<not> truthy (NextContinuationToken r')"
  then show "getBucketRoute P name log =
           Some (Returns \<lparr>status = 200,
                          body = BucketDetails name (KeyCount r)
                            (sum_list (map Size (case Contents r' of Some cs \<Rightarrow> cs | None \<Rightarrow> [])))
                            (case KeyCount r of Some n \<Rightarrow> n > 0 | None \<Rightarrow> False)\<rparr>,
                 log @ [ListObjectsV2Command name (Some []) (Some 1) None,
                        ListObjectsV2Command name (Some []) (Some 1000) None])"
    using getBucketRoute_one_page [where P = P and log = log and name = name and r = r and r' = r']
    by blast
qed

theorem boundary_skips_dot_rules_witness:
  "bucketNameSchema ''my..bucket'' = None
   \<and> validateBucketName ''my..bucket'' =
       Throws (Error ''Bucket name cannot contain consecutive dots'')
   \<and> (\<exists>rest. snd (deleteBucketRoute bareProvider (Some ''123456789012'') ''my..bucket'' []) =
               [] @ ListObjectsV2Command ''my..bucket'' None None None # rest)
   \<and> (\<exists>rest. snd (forceDeleteBucketRoute bareProvider (Some ''123456789012'') ''my..bucket'' []) =
               [] @ ListAccessPointsCommand (the (Some ''123456789012'')) ''my..bucket'' # rest)
   \<and> getBucketRoute bareProvider ''my..bucket'' [] =
       Some (Returns \<lparr>status = 200, body = BucketDetails ''my..bucket'' None 0 False\<rparr>,
             [ListObjectsV2Command ''my..bucket'' (Some []) (Some 1) None,
              ListObjectsV2Command ''my..bucket'' (Some []) (Some 1000) None])
   \<and> getBucketRoute largeBucketProvider ''my..bucket'' [] = None
   \<and> createBucket bareProvider ''my..bucket'' ''us-east-1'' [] =
       (Throws (Error (''Failed to create bucket: ''
                       @ error_message (Error ''Bucket name cannot contain consecutive dots''))), [])
   \<and> bucketNameSchema ''ab'' = Some string_min
   \<and> deleteBucketRoute bareProvider (Some ''123456789012'') ''ab'' [] =
       (Returns \<lparr>status = 400, body = Outcome False ''Invalid bucket name''\<rparr>, [])
   \<and> forceDeleteBucketRoute bareProvider (Some ''123456789012'') ''ab'' [] =
       (Returns \<lparr>status = 400, body = Outcome False ''Invalid bucket name''\<rparr>, [])
   \<and> getBucketRoute bareProvider ''ab'' [] =
       Some (Returns \<lparr>status = 400, body = Outcome False ''Invalid bucket name''\<rparr>, [])
   \<and> forceDeleteBucketRoute bareProvider None ''my..bucket'' [] =
       (Returns \<lparr>status = 400, body = Outcome False
          ''AWS_ACCOUNT_ID environment variable is required for access point management''\<rparr>, [])"
proof -
  let ?c1 = "ListObjectsV2Command ''my..bucket'' (Some []) (Some 1) None"
  note t = boundary_skips_dot_rules [of "''my..bucket''" bareProvider "Some ''123456789012''"
      "[]" "''us-east-1''"]
  note tl = boundary_skips_dot_rules [of "''my..bucket''" largeBucketProvider
      "Some ''123456789012''" "[]" "''us-east-1''"]
  note tr = boundary_skips_dot_rules [of "''ab''" bareProvider "Some ''123456789012''"
      "[]" "''us-east-1''"]
  note tn = boundary_skips_dot_rules [of "''my..bucket''" bareProvider None
      "[]" "''us-east-1''"]
  have ok: "bucketNameSchema ''my..bucket'' = None"
    and v: "validateBucketName ''my..bucket'' =
       Throws (Error ''Bucket name cannot contain consecutive dots'')"
    using t by blast+
  have acct: "truthy (Some ''123456789012'')" and unset: "\<not> truthy None"
    by (simp_all add: truthy_def)
  have ab: "bucketNameSchema ''ab'' = Some string_min"
    by (simp add: bucketNameSchema_def str_eval)
  then have refused: "bucketNameSchema ''ab'' \<noteq> None"
    by simp
  have page: "bareProvider [] ?c1 = Resolves (emptyResponse\<lparr>AccessPointList := Some []\<rparr>)
      \<and> bareProvider ([] @ [?c1]) (ListObjectsV2Command ''my..bucket'' (Some []) (Some 1000) None)
          = Resolves emptyResponse
      \<and> \<not> truthy (NextContinuationToken emptyResponse)"
    by (simp add: bareProvider_def scripted_def emptyResponse_def truthy_def)
  from t ok page have "getBucketRoute bareProvider ''my..bucket'' [] =
           Some (Returns \<lparr>status = 200,
                          body = BucketDetails ''my..bucket''
                            (KeyCount (emptyResponse\<lparr>AccessPointList := Some []\<rparr>))
                            (sum_list (map Size (case Contents emptyResponse of
                                                   Some cs \<Rightarrow> cs | None \<Rightarrow> [])))
                            (case KeyCount (emptyResponse\<lparr>AccessPointList := Some []\<rparr>) of
                               Some n \<Rightarrow> n > 0 | None \<Rightarrow> False)\<rparr>,
                 [] @ [?c1, ListObjectsV2Command ''my..bucket'' (Some []) (Some 1000) None])"
    by blast
  then have g: "getBucketRoute bareProvider ''my..bucket'' [] =
       Some (Returns \<lparr>status = 200, body = BucketDetails ''my..bucket'' None 0 False\<rparr>,
             [?c1, ListObjectsV2Command ''my..bucket'' (Some []) (Some 1000) None])"
    by (simp add: emptyResponse_def)
  have large: "(\<exists>r. largeBucketProvider [] ?c1 = Resolves r)
      \<and> calculateBucketSize largeBucketProvider ''my..bucket'' ([] @ [?c1]) = None"
  proof
    show "\<exists>r. largeBucketProvider [] ?c1 = Resolves r"
      by (simp add: largeBucketProvider_def scripted_def)
    have "NextContinuationToken firstPage = Some ''token-1000''"
      unfolding firstPage_def by (simp only: response.select_convs)
    then have "alwaysTruncated largeBucketProvider"
      by (simp add: alwaysTruncated_def largeBucketProvider_def scripted_def truthy_def)
    then show "calculateBucketSize largeBucketProvider ''my..bucket'' ([] @ [?c1]) = None"
      by (rule calculateBucketSize_diverges)
  qed
  from tl ok large have n: "getBucketRoute largeBucketProvider ''my..bucket'' [] = None"
    by blast
  from t ok have d: "\<exists>rest. snd (deleteBucketRoute bareProvider (Some ''123456789012'') ''my..bucket'' []) =
               [] @ ListObjectsV2Command ''my..bucket'' None None None # rest"
    by blast
  from t ok acct have f: "\<exists>rest. snd (forceDeleteBucketRoute bareProvider (Some ''123456789012'') ''my..bucket'' []) =
               [] @ ListAccessPointsCommand (the (Some ''123456789012'')) ''my..bucket'' # rest"
    by blast
  from t v have c: "createBucket bareProvider ''my..bucket'' ''us-east-1'' [] =
       (Throws (Error (''Failed to create bucket: ''
                       @ error_message (Error ''Bucket name cannot contain consecutive dots''))), [])"
    by blast
  from tr refused have r1: "deleteBucketRoute bareProvider (Some ''123456789012'') ''ab'' [] =
       (Returns \<lparr>status = 400, body = Outcome False ''Invalid bucket name''\<rparr>, [])"
    by blast
  from tr refused acct have r2: "forceDeleteBucketRoute bareProvider (Some ''123456789012'') ''ab'' [] =
       (Returns \<lparr>status = 400, body = Outcome False ''Invalid bucket name''\<rparr>, [])"
    by blast
  from tr refused have r3: "getBucketRoute bareProvider ''ab'' [] =
       Some (Returns \<lparr>status = 400, body = Outcome False ''Invalid bucket name''\<rparr>, [])"
    by blast
  from tn unset have u: "forceDeleteBucketRoute bareProvider None ''my..bucket'' [] =
       (Returns \<lparr>status = 400, body = Outcome False
          ''AWS_ACCOUNT_ID environment variable is required for access point management''\<rparr>, [])"
    by blast
  from ok v d f g n c ab r1 r2 r3 u show ?thesis
    by (intro conjI)
qed

text \<open>
  C10. The delete-item route decodes the key, checks the bucket and the key as they
  arrived, and deletes the decoded key. A parameter the schema refuses is answered
  400 and nothing is sent; a key that does not decode is answered 500 and nothing is
  sent; whenever the two schema checks pass and the key decodes, the one command sent
  is the deletion of the decoded key, answered 200 when the provider resolves. The
  key \<open>a%3Cb\<close> passes the schema and decodes to \<open>a<b\<close>, which the schema refuses.
\<close>

theorem delete_item_validates_encoded_key:
  "(fileKeySchema bucket = None \<and> fileKeySchema key = None
      \<and> decodeURIComponent key = Returns decodedKey
      \<longrightarrow> snd (deleteFileRoute P bucket key log) = log @ [DeleteObjectCommand bucket decodedKey]
          \<and> ((\<exists>out. P log (DeleteObjectCommand bucket decodedKey) = Resolves out) \<longrightarrow>
               fst (deleteFileRoute P bucket key log) =
                 Returns \<lparr>status = 200, body = Outcome True ''File deleted successfully''\<rparr>))
   \<and> fileKeySchema ''a%3Cb'' = None
   \<and> decodeURIComponent ''a%3Cb'' = Returns ''a<b''
   \<and> fileKeySchema ''a<b'' = Some string_pattern_base
   \<and> (decodeURIComponent key = Returns decodedKey
        \<and> (fileKeySchema bucket \<noteq> None \<or> fileKeySchema key \<noteq> None)
      \<longrightarrow> deleteFileRoute P bucket key log =
            (Returns \<lparr>status = 400, body = Outcome False ''Invalid bucket name or file key''\<rparr>,
             log))
   \<and> (\<forall>e. decodeURIComponent key = Throws e
      \<longrightarrow> deleteFileRoute P bucket key log =
            (Returns \<lparr>status = 500, body = Outcome False ''URI malformed''\<rparr>, log))
   \<and> (fileKeySchema key = None \<longleftrightarrow>
        1 \<le> jsLength key \<and> jsLength key \<le> 1024 \<and> fileKeyPattern key)"
proof (intro conjI impI allI)
  assume h: "fileKeySchema bucket = None \<and> fileKeySchema key = None
      \<and> decodeURIComponent key = Returns decodedKey"
  then show "snd (deleteFileRoute P bucket key log) = log @ [DeleteObjectCommand bucket decodedKey]"
    by (simp add: deleteFileRoute_log)
  assume "\<exists>out. P log (DeleteObjectCommand bucket decodedKey) = Resolves out"
  then obtain out where "P log (DeleteObjectCommand bucket decodedKey) = Resolves out" ..
  with h show "fst (deleteFileRoute P bucket key log) =
                 Returns \<lparr>status = 200, body = Outcome True ''File deleted successfully''\<rparr>"
    by (simp add: deleteFileRoute_Resolves [where P = P and log = log])
next
  show "fileKeySchema ''a%3Cb'' = None"
    by (simp add: fileKeySchema_def jsLength_def utf16Units_def fileKeyPattern_def fileKeyChar_def)
next
  show "decodeURIComponent ''a%3Cb'' = Returns ''a<b''"
    by (rule decode_example)
next
  show "fileKeySchema ''a<b'' = Some string_pattern_base"
    by (simp add: fileKeySchema_def jsLength_def utf16Units_def fileKeyPattern_def fileKeyChar_def)
next
  assume "decodeURIComponent key = Returns decodedKey
        \<and> (fileKeySchema bucket \<noteq> None \<or> fileKeySchema key \<noteq> None)"
  then show "deleteFileRoute P bucket key log =
            (Returns \<lparr>status = 400, body = Outcome False ''Invalid bucket name or file key''\<rparr>,
             log)"
    using deleteFileRoute_refused [of key decodedKey bucket P log] by blast
next
  fix e
  assume "decodeURIComponent key = Throws e"
  then show "deleteFileRoute P bucket key log =
            (Returns \<lparr>status = 500, body = Outcome False ''URI malformed''\<rparr>, log)"
    by (rule deleteFileRoute_malformed)
next
  show "fileKeySchema key = None \<longleftrightarrow>
        1 \<le> jsLength key \<and> jsLength key \<le> 1024 \<and> fileKeyPattern key"
    by (auto simp: fileKeySchema_def jsLength_Nil)
qed

theorem delete_item_validates_encoded_key_witness:
  "fileKeySchema ''demo'' = None \<and> fileKeySchema ''a%3Cb'' = None
   \<and> decodeURIComponent ''a%3Cb'' = Returns ''a<b''
   \<and> fileKeySchema ''a<b'' = Some string_pattern_base
   \<and> snd (deleteFileRoute bareProvider ''demo'' ''a%3Cb'' []) = [] @ [DeleteObjectCommand ''demo'' ''a<b'']
   \<and> fst (deleteFileRoute bareProvider ''demo'' ''a%3Cb'' []) =
       Returns \<lparr>status = 200, body = Outcome True ''File deleted successfully''\<rparr>
   \<and> decodeURIComponent ''a<b'' = Returns ''a<b''
   \<and> deleteFileRoute bareProvider ''demo'' ''a<b'' [] =
       (Returns \<lparr>status = 400, body = Outcome False ''Invalid bucket name or file key''\<rparr>, [])
   \<and> decodeURIComponent ''%'' = Throws URIError
   \<and> deleteFileRoute bareProvider ''demo'' ''%'' [] =
       (Returns \<lparr>status = 500, body = Outcome False ''URI malformed''\<rparr>, [])"
proof -
  note t = delete_item_validates_encoded_key [of "''demo''" "''a%3Cb''" "''a<b''" bareProvider "[]"]
  note tr = delete_item_validates_encoded_key [of "''demo''" "''a<b''" "''a<b''" bareProvider "[]"]
  note tm = delete_item_validates_encoded_key [of "''demo''" "''%''" "[]" bareProvider "[]"]
  have b: "fileKeySchema ''demo'' = None"
    by (simp add: fileKeySchema_def jsLength_def utf16Units_def fileKeyPattern_def fileKeyChar_def)
  have p: "\<exists>out. bareProvider [] (DeleteObjectCommand ''demo'' ''a<b'') = Resolves out"
    by (simp add: bareProvider_def scripted_def)
  have d2: "decodeURIComponent ''a<b'' = Returns ''a<b''"
    by code_simp
  have d3: "decodeURIComponent ''%'' = Throws URIError"
    by code_simp
  from t have k: "fileKeySchema ''a%3Cb'' = None"
    and d1: "decodeURIComponent ''a%3Cb'' = Returns ''a<b''"
    and x: "fileKeySchema ''a<b'' = Some string_pattern_base"
    by blast+
  from t b p k d1 have s: "snd (deleteFileRoute bareProvider ''demo'' ''a%3Cb'' []) =
      [] @ [DeleteObjectCommand ''demo'' ''a<b'']"
    and f: "fst (deleteFileRoute bareProvider ''demo'' ''a%3Cb'' []) =
       Returns \<lparr>status = 200, body = Outcome True ''File deleted successfully''\<rparr>"
    by blast+
  from x have x': "fileKeySchema ''a<b'' \<noteq> None"
    by simp
  from tr d2 x' have r: "deleteFileRoute bareProvider ''demo'' ''a<b'' [] =
       (Returns \<lparr>status = 400, body = Outcome False ''Invalid bucket name or file key''\<rparr>, [])"
    by blast
  from tm d3 have m: "deleteFileRoute bareProvider ''demo'' ''%'' [] =
       (Returns \<lparr>status = 500, body = Outcome False ''URI malformed''\<rparr>, [])"
    by blast
  from b k d1 x s f d2 r d3 m show ?thesis
    by (intro conjI)
qed

end
